theory Spec2Isabelle
  imports Complex_Main
begin

section \<open>Numbers and the d3 scales the charts construct\<close>

text \<open>
  JavaScript numbers are modelled as reals; \<open>NaN\<close> is kept as a value of its own, because
  d3 coerces a missing maximum (\<open>undefined\<close>) to it and an out-of-range array read that is
  subtracted yields it.

  The three scale kinds below are the ones the charts build with \<open>d3.scaleBand()\<close>,
  \<open>d3.scaleLinear()\<close> and \<open>d3.scaleOrdinal()\<close>. d3 is an external library; a scale
  object is modelled by the settings its builder calls store, with d3's documented
  defaults for a fresh scale.
\<close>

datatype num = Num real | NaN

record scaleBand_t =
  band_domain :: "string list"
  band_range :: "real \<times> real"
  band_round :: bool
  band_padding :: real

record scaleLinear_t =
  linear_domain :: "num list"
  linear_range :: "real list"

record scaleOrdinal_t =
  ordinal_domain :: "string list"
  ordinal_range :: "string list"

datatype scale = Band scaleBand_t | Linear scaleLinear_t | Ordinal scaleOrdinal_t

text \<open>Array read \<open>xs[i]\<close>: \<open>None\<close> is JavaScript's \<open>undefined\<close> for an index out of range.\<close>

fun index :: "'a list \<Rightarrow> nat \<Rightarrow> 'a option" where
  "index [] i = None"
| "index (x # xs) 0 = Some x"
| "index (x # xs) (Suc i) = index xs i"

text \<open>
  The domain setter of d3's ordinal and band scales keeps the first occurrence of every
  key, in input order.
\<close>

fun uniq_from :: "'a list \<Rightarrow> 'a list \<Rightarrow> 'a list" where
  "uniq_from seen [] = []"
| "uniq_from seen (k # ks) =
     (if k \<in> set seen then uniq_from seen ks else k # uniq_from (seen @ [k]) ks)"

definition uniq :: "'a list \<Rightarrow> 'a list" where
  "uniq ks = uniq_from [] ks"

definition scaleBand :: scaleBand_t where
  "scaleBand = \<lparr>band_domain = [], band_range = (0, 1), band_round = False, band_padding = 0\<rparr>"

definition band_domain_set :: "string list \<Rightarrow> scaleBand_t \<Rightarrow> scaleBand_t" where
  "band_domain_set ks b = b\<lparr>band_domain := uniq ks\<rparr>"

definition band_range_set :: "real \<times> real \<Rightarrow> scaleBand_t \<Rightarrow> scaleBand_t" where
  "band_range_set r b = b\<lparr>band_range := r\<rparr>"

definition band_rangeRound :: "real \<times> real \<Rightarrow> scaleBand_t \<Rightarrow> scaleBand_t" where
  "band_rangeRound r b = b\<lparr>band_range := r, band_round := True\<rparr>"

definition band_padding_set :: "real \<Rightarrow> scaleBand_t \<Rightarrow> scaleBand_t" where
  "band_padding_set p b = b\<lparr>band_padding := p\<rparr>"

definition scaleLinear :: scaleLinear_t where
  "scaleLinear = \<lparr>linear_domain = [Num 0, Num 1], linear_range = [0, 1]\<rparr>"

text \<open>\<open>+x\<close> on an array element that may be \<open>undefined\<close>.\<close>

definition number :: "real option \<Rightarrow> num" where
  "number v = (case v of None \<Rightarrow> NaN | Some r \<Rightarrow> Num r)"

definition linear_domain_set :: "real option list \<Rightarrow> scaleLinear_t \<Rightarrow> scaleLinear_t" where
  "linear_domain_set d l = l\<lparr>linear_domain := map number d\<rparr>"

definition linear_range_set :: "real list \<Rightarrow> scaleLinear_t \<Rightarrow> scaleLinear_t" where
  "linear_range_set r l = l\<lparr>linear_range := r\<rparr>"

definition scaleOrdinal :: scaleOrdinal_t where
  "scaleOrdinal = \<lparr>ordinal_domain = [], ordinal_range = []\<rparr>"

definition ordinal_domain_set :: "string list \<Rightarrow> scaleOrdinal_t \<Rightarrow> scaleOrdinal_t" where
  "ordinal_domain_set ks ord = ord\<lparr>ordinal_domain := uniq ks\<rparr>"

definition ordinal_range_set :: "string list \<Rightarrow> scaleOrdinal_t \<Rightarrow> scaleOrdinal_t" where
  "ordinal_range_set r ord = ord\<lparr>ordinal_range := r\<rparr>"

text \<open>
  \<open>linear.nice()\<close> extends the domain to round values, as in d3-scale 2 (the d3 5 line):
  the first and the last domain value are rounded outwards to a multiple of the tick
  step, twice, with the default tick count 10. The step is d3-array's
  \<open>tickIncrement(start, stop, count)\<close>:
  \<^verbatim>\<open>
  var step = (stop - start) / Math.max(0, count),
      power = Math.floor(Math.log(step) / Math.LN10),
      error = step / Math.pow(10, power);
  return power >= 0
      ? (error >= e10 ? 10 : error >= e5 ? 5 : error >= e2 ? 2 : 1) * Math.pow(10, power)
      : -Math.pow(10, -power) / (error >= e10 ? 10 : error >= e5 ? 5 : error >= e2 ? 2 : 1);
  \<close>
  with \<open>e10 = sqrt 50\<close>, \<open>e5 = sqrt 10\<close>, \<open>e2 = sqrt 2\<close>, computed here on exact reals.
  For a step that is not positive the doubles are \<open>-Infinity\<close> or \<open>NaN\<close>; the model
  returns \<open>None\<close> there, and \<open>nice\<close> then leaves the domain as it is, as every
  comparison with \<open>NaN\<close> fails in d3. A negative result \<open>-k\<close> stands for the step \<open>1/k\<close>.
\<close>

definition log10_floor :: "real \<Rightarrow> int" where
  "log10_floor x = (if 0 < x then \<lfloor>log 10 x\<rfloor> else 0)"

definition at_least_sqrt :: "real \<Rightarrow> nat \<Rightarrow> bool" where
  "at_least_sqrt e n = (sqrt (real n) \<le> e)"

definition tick_factor :: "real \<Rightarrow> real" where
  "tick_factor error =
     (if at_least_sqrt error 50 then 10 else if at_least_sqrt error 10 then 5
      else if at_least_sqrt error 2 then 2 else 1)"

definition tickIncrement :: "real \<Rightarrow> real \<Rightarrow> real \<Rightarrow> real option" where
  "tickIncrement start stop count =
     (let step = (stop - start) / max 0 count
      in if step \<le> 0 then None
         else let power = log10_floor step;
                  error = step / (10 powi power)
              in Some (if power \<ge> 0 then tick_factor error * (10 powi power)
                       else - (10 powi (- power)) / tick_factor error))"

definition nice_bounds :: "real \<Rightarrow> real \<Rightarrow> real \<Rightarrow> real \<times> real" where
  "nice_bounds start stop step =
     (if step > 0 then (of_int \<lfloor>start / step\<rfloor> * step, of_int \<lceil>stop / step\<rceil> * step)
      else if step < 0 then (of_int \<lceil>start * step\<rceil> / step, of_int \<lfloor>stop * step\<rfloor> / step)
      else (start, stop))"

definition linear_nice :: "scaleLinear_t \<Rightarrow> scaleLinear_t" where
  "linear_nice l =
     (let d = linear_domain l; n = length d
      in case (index d 0, index d (n - 1)) of
           (Some (Num a), Some (Num b)) \<Rightarrow>
             (let (i0, i1, start, stop) = (if b < a then (n - 1, 0, b, a) else (0, n - 1, a, b))
              in case tickIncrement start stop 10 of
                   None \<Rightarrow> l
                 | Some step \<Rightarrow>
                     (let (start', stop') = nice_bounds start stop step
                      in case tickIncrement start' stop' 10 of
                           None \<Rightarrow> l
                         | Some step' \<Rightarrow>
                             (let (lo, hi) = nice_bounds start' stop' step'
                              in l\<lparr>linear_domain := (d[i0 := Num lo])[i1 := Num hi]\<rparr>)))
         | _ \<Rightarrow> l)"

section \<open>The data summarizer\<close>

record point =
  point_key :: string
  point_value :: real

record series =
  series_key :: string
  series_values :: "point list"

type_synonym dataset = "series list"

record summary_t =
  rowKeys :: "string list"
  columnKeys :: "string list"
  maxValue :: "real option"

fun maximum :: "real list \<Rightarrow> real option" where
  "maximum [] = None"
| "maximum (v # vs) = Some (fold max vs v)"

text \<open>
  Modelled from the spec: \<open>dataTransform(data).summary()\<close> (the file \<open>dataTransform\<close> is
  imported by the charts and is not among the sources). The spec describes it as the
  Data Summarizer: "given raw tabular input, computes unique row keys, unique column keys,
  and the maximum value", over a dataset that is "an ordered collection of series, each
  with a key and an ordered collection of {key, value} pairs". Row keys are the series
  keys and column keys the keys of the pairs, both in input order; a dataset without any
  value has no maximum (\<open>None\<close>, JavaScript's \<open>undefined\<close>).
\<close>

definition dataTransform_summary :: "dataset \<Rightarrow> summary_t" where
  "dataTransform_summary data =
     \<lparr>rowKeys = uniq (map series_key data),
      columnKeys = uniq (concat (map (\<lambda>d. map point_key (series_values d)) data)),
      maxValue = maximum (concat (map (\<lambda>d. map point_value (series_values d)) data))\<rparr>"

section \<open>Scene graph\<close>

text \<open>
  An attribute value is a string. \<open>Px n\<close> stands for the string \<open>n + "px"\<close> the charts
  build from the configured width and height.
\<close>

datatype attr_value = Text string | Px real

datatype node = Node (tag: string) (attrs: "(string \<times> attr_value) list") (children: "node list")

definition element :: "string \<Rightarrow> node" where
  "element t = Node t [] []"

fun attr_update :: "string \<Rightarrow> attr_value \<Rightarrow> (string \<times> attr_value) list \<Rightarrow> (string \<times> attr_value) list" where
  "attr_update n v [] = [(n, v)]"
| "attr_update n v ((m, w) # as) = (if m = n then (n, v) # as else (m, w) # attr_update n v as)"

fun attr :: "string \<Rightarrow> attr_value \<Rightarrow> node \<Rightarrow> node" where
  "attr n v (Node t as cs) = Node t (attr_update n v as) cs"

fun append_child :: "node \<Rightarrow> node \<Rightarrow> node" where
  "append_child c (Node t as cs) = Node t as (cs @ [c])"

text \<open>The class attribute is a list of tokens separated by ASCII whitespace.\<close>

definition is_space :: "char \<Rightarrow> bool" where
  "is_space c = (c \<in> set [CHR '' '', CHR 0x09, CHR 0x0A, CHR 0x0C, CHR 0x0D])"

fun split_tokens :: "string \<Rightarrow> string \<Rightarrow> string list" where
  "split_tokens cur [] = (if cur = [] then [] else [cur])"
| "split_tokens cur (c # cs) =
     (if is_space c then (if cur = [] then split_tokens [] cs else cur # split_tokens [] cs)
      else split_tokens (cur @ [c]) cs)"

definition class_tokens :: "(string \<times> attr_value) list \<Rightarrow> string list" where
  "class_tokens as = (case map_of as ''class'' of Some (Text c) \<Rightarrow> split_tokens [] c | _ \<Rightarrow> [])"

definition has_class :: "string \<Rightarrow> node \<Rightarrow> bool" where
  "has_class c n = (c \<in> set (class_tokens (attrs n)))"

fun join_tokens :: "string list \<Rightarrow> string" where
  "join_tokens [] = []"
| "join_tokens [t] = t"
| "join_tokens (t # ts) = t @ '' '' @ join_tokens ts"

text \<open>\<open>selection.classed(names, true)\<close>: every name not yet in the class list is added.\<close>

definition classed_add :: "string \<Rightarrow> node \<Rightarrow> node" where
  "classed_add names n =
     (let new = fold (\<lambda>c ts. if c \<in> set ts then ts else ts @ [c])
                  (split_tokens [] names) (class_tokens (attrs n))
      in if new = [] then n else attr ''class'' (Text (join_tokens new)) n)"

text \<open>
  \<open>scene.selectAll("group").data(layers).enter().append("group").attr("class", d => d)\<close>
  on the scene just created, which has no group yet: one group is appended per layer.
\<close>

definition enter_groups :: "string list \<Rightarrow> node \<Rightarrow> node" where
  "enter_groups layers scene =
     fold (\<lambda>d sc. append_child (attr ''class'' (Text d) (element ''group'')) sc) layers scene"

text \<open>
  A sub-component called on a node mutates that node's subtree and returns, or throws
  after having mutated it so far.
\<close>

datatype outcome = Returned node | Threw node

text \<open>
  \<open>parent.select(".c").call(f)\<close>: \<open>f\<close> runs on the first descendant of \<open>parent\<close>, in document
  order, that carries the class \<open>c\<close>. The function works on the list of children and
  answers \<open>None\<close> when no descendant matches, otherwise the new children and whether
  \<open>f\<close> threw. When nothing matches the selection is empty: there is no node for \<open>f\<close> to
  work on, and the parent stays as it is.
\<close>

function select_in :: "string \<Rightarrow> (node \<Rightarrow> outcome) \<Rightarrow> node list \<Rightarrow> (node list \<times> bool) option" where
  "select_in c f [] = None"
| "select_in c f (n # ns) =
     (if has_class c n then
        (case f n of Returned n' \<Rightarrow> Some (n' # ns, False) | Threw n' \<Rightarrow> Some (n' # ns, True))
      else case select_in c f (children n) of
             Some (cs', t) \<Rightarrow> Some (Node (tag n) (attrs n) cs' # ns, t)
           | None \<Rightarrow>
               (case select_in c f ns of
                  Some (ns', t) \<Rightarrow> Some (n # ns', t)
                | None \<Rightarrow> None))"
  by pat_completeness auto
termination
  by (relation "measure (\<lambda>(c, f, ns). size_list size ns)") (auto, case_tac n, auto)

definition select_call :: "string \<Rightarrow> (node \<Rightarrow> outcome) \<Rightarrow> node \<Rightarrow> node \<times> bool" where
  "select_call c f parent =
     (case select_in c f (children parent) of
        None \<Rightarrow> (parent, False)
      | Some (cs', t) \<Rightarrow> (Node (tag parent) (attrs parent) cs', t))"

section \<open>Sub-components\<close>

text \<open>
  The axis, bars and viewpoint components are imported from \<open>component\<close> and are not among
  the sources. A chart binds settings into a component and calls it on a node. The
  settings a chart binds are recorded as they are written in the chart; what a component
  does with them on the node it is called on is a parameter of the model.
\<close>

record viewpoint_cfg =
  vp_quickView :: "string option"
  vp_centerOfRotation :: "real list option"

record axis_cfg =
  axis_scale :: "scale option"
  axis_dir :: string
  axis_tickDir :: string
  axis_tickSize :: "num option"

record bars_cfg =
  bars_xScale :: "scaleBand_t option"
  bars_yScale :: "scaleLinear_t option"
  bars_colors :: "string list"

record axisThreePlane_cfg =
  atp_xScale :: "scaleBand_t option"
  atp_yScale :: "scaleLinear_t option"
  atp_zScale :: "scaleBand_t option"

record barsMultiSeries_cfg =
  bms_xScale :: "scaleBand_t option"
  bms_yScale :: "scaleLinear_t option"
  bms_zScale :: "scaleBand_t option"
  bms_colors :: "string list"

record component =
  viewpoint :: "viewpoint_cfg \<Rightarrow> node \<Rightarrow> outcome"
  axis :: "axis_cfg \<Rightarrow> node \<Rightarrow> outcome"
  bars :: "bars_cfg \<Rightarrow> dataset \<Rightarrow> node \<Rightarrow> outcome"
  axisThreePlane :: "axisThreePlane_cfg \<Rightarrow> node \<Rightarrow> outcome"
  barsMultiSeries :: "barsMultiSeries_cfg \<Rightarrow> dataset \<Rightarrow> node \<Rightarrow> outcome"

text \<open>
  Probes for what a chart hands to its sub-components: each of the following wraps the
  components so that they disregard the x-, y- or z-scale they are handed and work with
  the given one instead. The axis component serves the x-axis and the y-axis; it tells
  them apart by the direction bound into it.
\<close>

definition with_xScale :: "scaleBand_t \<Rightarrow> component \<Rightarrow> component" where
  "with_xScale bx cmp =
     cmp\<lparr>axis := (\<lambda>c. axis cmp (if axis_dir c = ''x'' then c\<lparr>axis_scale := Some (Band bx)\<rparr> else c)),
         bars := (\<lambda>c. bars cmp (c\<lparr>bars_xScale := Some bx\<rparr>)),
         axisThreePlane := (\<lambda>c. axisThreePlane cmp (c\<lparr>atp_xScale := Some bx\<rparr>)),
         barsMultiSeries := (\<lambda>c. barsMultiSeries cmp (c\<lparr>bms_xScale := Some bx\<rparr>))\<rparr>"

definition with_yScale :: "scaleLinear_t \<Rightarrow> component \<Rightarrow> component" where
  "with_yScale ly cmp =
     cmp\<lparr>axis := (\<lambda>c. axis cmp (if axis_dir c = ''y'' then c\<lparr>axis_scale := Some (Linear ly)\<rparr> else c)),
         bars := (\<lambda>c. bars cmp (c\<lparr>bars_yScale := Some ly\<rparr>)),
         axisThreePlane := (\<lambda>c. axisThreePlane cmp (c\<lparr>atp_yScale := Some ly\<rparr>)),
         barsMultiSeries := (\<lambda>c. barsMultiSeries cmp (c\<lparr>bms_yScale := Some ly\<rparr>))\<rparr>"

definition with_zScale :: "scaleBand_t \<Rightarrow> component \<Rightarrow> component" where
  "with_zScale bz cmp =
     cmp\<lparr>axisThreePlane := (\<lambda>c. axisThreePlane cmp (c\<lparr>atp_zScale := Some bz\<rparr>)),
         barsMultiSeries := (\<lambda>c. barsMultiSeries cmp (c\<lparr>bms_zScale := Some bz\<rparr>))\<rparr>"

text \<open>A viewpoint component that throws before it has touched the scene.\<close>

definition viewpoint_throwing :: "component \<Rightarrow> component" where
  "viewpoint_throwing cmp = cmp\<lparr>viewpoint := (\<lambda>c n. Threw n)\<rparr>"

section \<open>Chart instances\<close>

text \<open>
  A chart instance is the function \<open>my\<close> together with the variables its closure captures.
  A scale variable is \<open>None\<close> while it is \<open>undefined\<close>. The variables are typed as the
  source documents them; each scale variable holds a scale of the kind the chart itself
  would construct for it.

  A chart is called as in \<open>chartHolder.datum(myData).call(myChart)\<close>: on a selection of one
  container that has the dataset bound to it. The \<open>x3d\<close> element the chart appends to the
  container is part of the result. Sub-components get the scales as values: they work on
  the node they are called on and do not change a variable of the chart.
\<close>

record dimensions_t =
  dim_x :: real
  dim_y :: real
  dim_z :: real

record barChartVertical_vars =
  width :: real
  height :: real
  dimensions :: dimensions_t
  colors :: "string list"
  classed :: string
  debug :: bool
  xScale :: "scaleBand_t option"
  yScale :: "scaleLinear_t option"
  colorScale :: "scaleOrdinal_t option"

record barChartMultiSeries_vars = barChartVertical_vars +
  zScale :: "scaleBand_t option"

text \<open>
  An accessor is called with no argument or with one (\<open>arguments.length\<close>); it returns a
  value or an object. \<open>this\<close> is the object the accessor is called on: the chart instance
  \<open>My\<close> for a call \<open>chart.width(v)\<close>, something else for a detached call.
\<close>

datatype 'a args = NoArgs | Arg 'a

datatype receiver = My | Other

datatype 'a returned = Value 'a | Object receiver

text \<open>The result of calling a chart on a container: the captured variables afterwards,
  the \<open>x3d\<close> element appended to the container, and whether the call threw.\<close>

datatype 'v run = Run (vars_after: 'v) (x3d_of: node) (threw: bool)

subsection \<open>barChartVertical\<close>

definition barChartVertical :: barChartVertical_vars where
  "barChartVertical =
     \<lparr>width = 500, height = 500,
      dimensions = \<lparr>dim_x = 40, dim_y = 40, dim_z = 40\<rparr>,
      colors = [''green'', ''red'', ''yellow'', ''steelblue'', ''orange''],
      classed = ''x3dBarChartVertical'',
      debug = False,
      xScale = None, yScale = None, colorScale = None\<rparr>"

definition barChartVertical_init :: "dataset \<Rightarrow> barChartVertical_vars \<Rightarrow> barChartVertical_vars" where
  "barChartVertical_init data s0 =
     (let summary = dataTransform_summary data;
          extent = [Some 0, maxValue summary];
          s1 = (if xScale s0 = None
                then s0\<lparr>xScale := Some (band_padding_set (1/2)
                        (band_rangeRound (0, dim_x (dimensions s0))
                          (band_domain_set (columnKeys summary) scaleBand)))\<rparr>
                else s0);
          s2 = (if yScale s1 = None
                then s1\<lparr>yScale := Some (linear_nice
                        (linear_range_set [0, dim_y (dimensions s1)]
                          (linear_domain_set extent scaleLinear)))\<rparr>
                else s1);
          s3 = (if colorScale s2 = None
                then s2\<lparr>colorScale := Some (ordinal_range_set (colors s2)
                        (ordinal_domain_set (columnKeys summary) scaleOrdinal))\<rparr>
                else s2)
      in s3)"

text \<open>The three components the chart constructs after \<open>init\<close>, from the captured variables.\<close>

definition barChartVertical_xAxis :: "barChartVertical_vars \<Rightarrow> axis_cfg" where
  "barChartVertical_xAxis s =
     \<lparr>axis_scale = map_option Band (xScale s), axis_dir = ''x'', axis_tickDir = ''y'',
      axis_tickSize = None\<rparr>"

text \<open>
  \<open>yScale.range()[1] - yScale.range()[0]\<close>; the y-axis cannot be constructed (\<open>None\<close>: reading
  \<open>range\<close> of \<open>undefined\<close> throws) while \<open>yScale\<close> is undefined.
\<close>

definition range_extent :: "scaleLinear_t \<Rightarrow> num" where
  "range_extent l =
     (case (index (linear_range l) 1, index (linear_range l) 0) of
        (Some b, Some a) \<Rightarrow> Num (b - a)
      | _ \<Rightarrow> NaN)"

definition barChartVertical_yAxis :: "barChartVertical_vars \<Rightarrow> axis_cfg option" where
  "barChartVertical_yAxis s =
     (case yScale s of
        None \<Rightarrow> None
      | Some ys \<Rightarrow>
          Some \<lparr>axis_scale = Some (Linear ys), axis_dir = ''y'', axis_tickDir = ''x'',
                axis_tickSize = Some (range_extent ys)\<rparr>)"

definition barChartVertical_chart :: "barChartVertical_vars \<Rightarrow> bars_cfg" where
  "barChartVertical_chart s =
     \<lparr>bars_xScale = xScale s, bars_yScale = yScale s, bars_colors = colors s\<rparr>"

text \<open>The \<open>scene\<close> element with its class and one group per layer, and the viewpoint component
  bound to the quick view \<open>left\<close>, as they are before any component is called.\<close>

definition barChartVertical_scene :: "barChartVertical_vars \<Rightarrow> node" where
  "barChartVertical_scene s =
     (let layers = [''xAxis'', ''yAxis'', ''chart'']
      in enter_groups layers (classed_add (classed s) (element ''scene'')))"

definition barChartVertical_viewpoint :: viewpoint_cfg where
  "barChartVertical_viewpoint = \<lparr>vp_quickView = Some ''left'', vp_centerOfRotation = None\<rparr>"

definition barChartVertical_my ::
  "component \<Rightarrow> dataset \<Rightarrow> barChartVertical_vars \<Rightarrow> barChartVertical_vars run" where
  "barChartVertical_my cmp data s0 =
     (let x3d0 = attr ''height'' (Px (height s0)) (attr ''width'' (Px (width s0)) (element ''x3d''));
          x3d = (if debug s0
                 then attr ''showStat'' (Text ''true'') (attr ''showLog'' (Text ''true'') x3d0)
                 else x3d0);
          scene0 = barChartVertical_scene s0
      in case viewpoint cmp barChartVertical_viewpoint scene0 of
           Threw scene \<Rightarrow> Run s0 (append_child scene x3d) True
         | Returned scene1 \<Rightarrow>
             (let s = barChartVertical_init data s0
              in case barChartVertical_yAxis s of
                   None \<Rightarrow> Run s (append_child scene1 x3d) True
                 | Some yAxis \<Rightarrow>
                     (case select_call ''xAxis'' (axis cmp (barChartVertical_xAxis s)) scene1 of
                        (scene, True) \<Rightarrow> Run s (append_child scene x3d) True
                      | (scene2, False) \<Rightarrow>
                     (case select_call ''yAxis'' (axis cmp yAxis) scene2 of
                        (scene, True) \<Rightarrow> Run s (append_child scene x3d) True
                      | (scene3, False) \<Rightarrow>
                     (case select_call ''chart'' (bars cmp (barChartVertical_chart s) data) scene3 of
                        (scene, t) \<Rightarrow> Run s (append_child scene x3d) t)))))"

definition barChartVertical_width ::
  "receiver \<Rightarrow> real args \<Rightarrow> barChartVertical_vars \<Rightarrow> real returned \<times> barChartVertical_vars" where
  "barChartVertical_width this a s =
     (case a of NoArgs \<Rightarrow> (Value (width s), s) | Arg x \<Rightarrow> (Object this, s\<lparr>width := x\<rparr>))"

definition barChartVertical_height ::
  "receiver \<Rightarrow> real args \<Rightarrow> barChartVertical_vars \<Rightarrow> real returned \<times> barChartVertical_vars" where
  "barChartVertical_height this a s =
     (case a of NoArgs \<Rightarrow> (Value (height s), s) | Arg x \<Rightarrow> (Object this, s\<lparr>height := x\<rparr>))"

definition barChartVertical_dimensions ::
  "receiver \<Rightarrow> dimensions_t args \<Rightarrow> barChartVertical_vars \<Rightarrow> dimensions_t returned \<times> barChartVertical_vars" where
  "barChartVertical_dimensions this a s =
     (case a of NoArgs \<Rightarrow> (Value (dimensions s), s) | Arg x \<Rightarrow> (Object this, s\<lparr>dimensions := x\<rparr>))"

definition barChartVertical_xScale ::
  "receiver \<Rightarrow> scaleBand_t option args \<Rightarrow> barChartVertical_vars \<Rightarrow> scaleBand_t option returned \<times> barChartVertical_vars" where
  "barChartVertical_xScale this a s =
     (case a of NoArgs \<Rightarrow> (Value (xScale s), s) | Arg x \<Rightarrow> (Object My, s\<lparr>xScale := x\<rparr>))"

definition barChartVertical_yScale ::
  "receiver \<Rightarrow> scaleLinear_t option args \<Rightarrow> barChartVertical_vars \<Rightarrow> scaleLinear_t option returned \<times> barChartVertical_vars" where
  "barChartVertical_yScale this a s =
     (case a of NoArgs \<Rightarrow> (Value (yScale s), s) | Arg x \<Rightarrow> (Object My, s\<lparr>yScale := x\<rparr>))"

definition barChartVertical_colorScale ::
  "receiver \<Rightarrow> scaleOrdinal_t option args \<Rightarrow> barChartVertical_vars \<Rightarrow> scaleOrdinal_t option returned \<times> barChartVertical_vars" where
  "barChartVertical_colorScale this a s =
     (case a of NoArgs \<Rightarrow> (Value (colorScale s), s) | Arg x \<Rightarrow> (Object My, s\<lparr>colorScale := x\<rparr>))"

definition barChartVertical_colors ::
  "receiver \<Rightarrow> string list args \<Rightarrow> barChartVertical_vars \<Rightarrow> string list returned \<times> barChartVertical_vars" where
  "barChartVertical_colors this a s =
     (case a of NoArgs \<Rightarrow> (Value (colors s), s) | Arg x \<Rightarrow> (Object My, s\<lparr>colors := x\<rparr>))"

definition barChartVertical_debug ::
  "receiver \<Rightarrow> bool args \<Rightarrow> barChartVertical_vars \<Rightarrow> bool returned \<times> barChartVertical_vars" where
  "barChartVertical_debug this a s =
     (case a of NoArgs \<Rightarrow> (Value (debug s), s) | Arg x \<Rightarrow> (Object My, s\<lparr>debug := x\<rparr>))"

subsection \<open>barChartMultiSeries\<close>

definition barChartMultiSeries :: barChartMultiSeries_vars where
  "barChartMultiSeries =
     \<lparr>width = 500, height = 500,
      dimensions = \<lparr>dim_x = 40, dim_y = 40, dim_z = 40\<rparr>,
      colors = [''green'', ''red'', ''yellow'', ''steelblue'', ''orange''],
      classed = ''x3dBarChartMultiSeries'',
      debug = False,
      xScale = None, yScale = None, colorScale = None, zScale = None\<rparr>"

text \<open>
  In the \<open>yScale\<close> branch the linear scale is built and dropped: the statement is an
  expression without an assignment.
\<close>

definition barChartMultiSeries_init :: "dataset \<Rightarrow> barChartMultiSeries_vars \<Rightarrow> barChartMultiSeries_vars" where
  "barChartMultiSeries_init data s0 =
     (let summary = dataTransform_summary data;
          extent = [Some 0, maxValue summary];
          s1 = (if xScale s0 = None
                then s0\<lparr>xScale := Some (band_padding_set (1/2)
                        (band_rangeRound (0, dim_x (dimensions s0))
                          (band_domain_set (columnKeys summary) scaleBand)))\<rparr>
                else s0);
          s2 = (if yScale s1 = None
                then (let dropped = linear_nice
                        (linear_range_set [0, dim_y (dimensions s1)]
                          (linear_domain_set extent scaleLinear))
                      in s1)
                else s1);
          s3 = (if zScale s2 = None
                then s2\<lparr>zScale := Some (band_padding_set (7/10)
                        (band_range_set (0, dim_z (dimensions s2))
                          (band_domain_set (rowKeys summary) scaleBand)))\<rparr>
                else s2);
          s4 = (if colorScale s3 = None
                then s3\<lparr>colorScale := Some (ordinal_range_set (colors s3)
                        (ordinal_domain_set (columnKeys summary) scaleOrdinal))\<rparr>
                else s3)
      in s4)"

definition barChartMultiSeries_scene :: "barChartMultiSeries_vars \<Rightarrow> node" where
  "barChartMultiSeries_scene s =
     (let layers = [''axis'', ''chart'']
      in enter_groups layers (classed_add (classed s) (element ''scene'')))"

definition barChartMultiSeries_viewpoint :: "barChartMultiSeries_vars \<Rightarrow> viewpoint_cfg" where
  "barChartMultiSeries_viewpoint s =
     \<lparr>vp_quickView = None,
      vp_centerOfRotation =
        Some [dim_x (dimensions s) / 2, dim_y (dimensions s) / 2, dim_z (dimensions s) / 2]\<rparr>"

definition directionallight :: node where
  "directionallight =
     attr ''shadowintensity'' (Text ''0'')
       (attr ''intensity'' (Text ''0.4'')
         (attr ''on'' (Text ''true'')
           (attr ''direction'' (Text ''1 0 -1'') (element ''directionallight''))))"

definition barChartMultiSeries_axis :: "barChartMultiSeries_vars \<Rightarrow> axisThreePlane_cfg" where
  "barChartMultiSeries_axis s =
     \<lparr>atp_xScale = xScale s, atp_yScale = yScale s, atp_zScale = zScale s\<rparr>"

definition barChartMultiSeries_chart :: "barChartMultiSeries_vars \<Rightarrow> barsMultiSeries_cfg" where
  "barChartMultiSeries_chart s =
     \<lparr>bms_xScale = xScale s, bms_yScale = yScale s, bms_zScale = zScale s,
      bms_colors = colors s\<rparr>"

definition barChartMultiSeries_my ::
  "component \<Rightarrow> dataset \<Rightarrow> barChartMultiSeries_vars \<Rightarrow> barChartMultiSeries_vars run" where
  "barChartMultiSeries_my cmp data s0 =
     (let x3d0 = attr ''height'' (Px (height s0)) (attr ''width'' (Px (width s0)) (element ''x3d''));
          x3d = (if debug s0
                 then attr ''showStat'' (Text ''true'') (attr ''showLog'' (Text ''true'') x3d0)
                 else x3d0);
          scene0 = barChartMultiSeries_scene s0
      in case viewpoint cmp (barChartMultiSeries_viewpoint s0) scene0 of
           Threw scene \<Rightarrow> Run s0 (append_child scene x3d) True
         | Returned scene1 \<Rightarrow>
             (let scene2 = append_child directionallight scene1;
                  s = barChartMultiSeries_init data s0
              in case select_call ''axis'' (axisThreePlane cmp (barChartMultiSeries_axis s)) scene2 of
                   (scene, True) \<Rightarrow> Run s (append_child scene x3d) True
                 | (scene3, False) \<Rightarrow>
                (case select_call ''chart'' (barsMultiSeries cmp (barChartMultiSeries_chart s) data) scene3 of
                   (scene, t) \<Rightarrow> Run s (append_child scene x3d) t)))"

definition barChartMultiSeries_width ::
  "receiver \<Rightarrow> real args \<Rightarrow> barChartMultiSeries_vars \<Rightarrow> real returned \<times> barChartMultiSeries_vars" where
  "barChartMultiSeries_width this a s =
     (case a of NoArgs \<Rightarrow> (Value (width s), s) | Arg x \<Rightarrow> (Object this, s\<lparr>width := x\<rparr>))"

definition barChartMultiSeries_height ::
  "receiver \<Rightarrow> real args \<Rightarrow> barChartMultiSeries_vars \<Rightarrow> real returned \<times> barChartMultiSeries_vars" where
  "barChartMultiSeries_height this a s =
     (case a of NoArgs \<Rightarrow> (Value (height s), s) | Arg x \<Rightarrow> (Object this, s\<lparr>height := x\<rparr>))"

definition barChartMultiSeries_dimensions ::
  "receiver \<Rightarrow> dimensions_t args \<Rightarrow> barChartMultiSeries_vars \<Rightarrow> dimensions_t returned \<times> barChartMultiSeries_vars" where
  "barChartMultiSeries_dimensions this a s =
     (case a of NoArgs \<Rightarrow> (Value (dimensions s), s) | Arg x \<Rightarrow> (Object this, s\<lparr>dimensions := x\<rparr>))"

definition barChartMultiSeries_xScale ::
  "receiver \<Rightarrow> scaleBand_t option args \<Rightarrow> barChartMultiSeries_vars \<Rightarrow> scaleBand_t option returned \<times> barChartMultiSeries_vars" where
  "barChartMultiSeries_xScale this a s =
     (case a of NoArgs \<Rightarrow> (Value (xScale s), s) | Arg x \<Rightarrow> (Object My, s\<lparr>xScale := x\<rparr>))"

definition barChartMultiSeries_yScale ::
  "receiver \<Rightarrow> scaleLinear_t option args \<Rightarrow> barChartMultiSeries_vars \<Rightarrow> scaleLinear_t option returned \<times> barChartMultiSeries_vars" where
  "barChartMultiSeries_yScale this a s =
     (case a of NoArgs \<Rightarrow> (Value (yScale s), s) | Arg x \<Rightarrow> (Object My, s\<lparr>yScale := x\<rparr>))"

definition barChartMultiSeries_zScale ::
  "receiver \<Rightarrow> scaleBand_t option args \<Rightarrow> barChartMultiSeries_vars \<Rightarrow> scaleBand_t option returned \<times> barChartMultiSeries_vars" where
  "barChartMultiSeries_zScale this a s =
     (case a of NoArgs \<Rightarrow> (Value (zScale s), s) | Arg x \<Rightarrow> (Object My, s\<lparr>zScale := x\<rparr>))"

definition barChartMultiSeries_colorScale ::
  "receiver \<Rightarrow> scaleOrdinal_t option args \<Rightarrow> barChartMultiSeries_vars \<Rightarrow> scaleOrdinal_t option returned \<times> barChartMultiSeries_vars" where
  "barChartMultiSeries_colorScale this a s =
     (case a of NoArgs \<Rightarrow> (Value (colorScale s), s) | Arg x \<Rightarrow> (Object My, s\<lparr>colorScale := x\<rparr>))"

definition barChartMultiSeries_colors ::
  "receiver \<Rightarrow> string list args \<Rightarrow> barChartMultiSeries_vars \<Rightarrow> string list returned \<times> barChartMultiSeries_vars" where
  "barChartMultiSeries_colors this a s =
     (case a of NoArgs \<Rightarrow> (Value (colors s), s) | Arg x \<Rightarrow> (Object My, s\<lparr>colors := x\<rparr>))"

definition barChartMultiSeries_debug ::
  "receiver \<Rightarrow> bool args \<Rightarrow> barChartMultiSeries_vars \<Rightarrow> bool returned \<times> barChartMultiSeries_vars" where
  "barChartMultiSeries_debug this a s =
     (case a of NoArgs \<Rightarrow> (Value (debug s), s) | Arg x \<Rightarrow> (Object My, s\<lparr>debug := x\<rparr>))"

section \<open>Example inputs\<close>

text \<open>The spec's one-series dataset, a two-series dataset, and sub-components that append
  one element each; the three-plane axis throws when it is given no y-scale.\<close>

definition dataset_A :: dataset where
  "dataset_A =
     [\<lparr>series_key = ''A'',
       series_values = [\<lparr>point_key = ''q1'', point_value = 10\<rparr>,
                        \<lparr>point_key = ''q2'', point_value = 20\<rparr>]\<rparr>]"

definition dataset_AB :: dataset where
  "dataset_AB =
     [\<lparr>series_key = ''A'',
       series_values = [\<lparr>point_key = ''q1'', point_value = 10\<rparr>,
                        \<lparr>point_key = ''q2'', point_value = 20\<rparr>]\<rparr>,
      \<lparr>series_key = ''B'',
       series_values = [\<lparr>point_key = ''q1'', point_value = 5\<rparr>]\<rparr>]"

definition appending :: component where
  "appending =
     \<lparr>viewpoint = (\<lambda>c n. Returned (append_child (element ''viewpoint'') n)),
      axis = (\<lambda>c n. Returned (append_child (element ''shape'') n)),
      bars = (\<lambda>c d n. Returned (append_child (element ''shape'') n)),
      axisThreePlane = (\<lambda>c n. case atp_yScale c of
                                  None \<Rightarrow> Threw n
                                | Some y \<Rightarrow> Returned (append_child (element ''shape'') n)),
      barsMultiSeries = (\<lambda>c d n. Returned (append_child (element ''shape'') n))\<rparr>"

section \<open>Properties\<close>

subsection \<open>Evaluation of the d3 helpers\<close>

lemma log10_floor_code [code]:
  "log10_floor x =
     (if x \<le> 0 then 0
      else if 10 \<le> x then log10_floor (x / 10) + 1
      else if x < 1 then log10_floor (x * 10) - 1
      else 0)"
proof -
  have mid: "\<lfloor>log 10 x\<rfloor> = 0" if "1 \<le> x" "x < 10"
  proof -
    have "0 \<le> log 10 x" using that by simp
    moreover have "log 10 x < 1" using that by simp
    ultimately show ?thesis by linarith
  qed
  have down: "log 10 (x / 10) = log 10 x - 1" if "0 < x"
    using that by (simp add: log_divide)
  have up: "log 10 (x * 10) = log 10 x + 1" if "0 < x"
    using that by (simp add: log_mult)
  show ?thesis
    by (simp add: log10_floor_def mid down up)
qed

lemma at_least_sqrt_code [code]:
  "at_least_sqrt e n = (0 \<le> e \<and> real n \<le> e * e)"
proof (cases "0 \<le> e")
  case True
  then have "sqrt (e * e) = e" by simp
  then have "(sqrt (real n) \<le> e) = (sqrt (real n) \<le> sqrt (e * e))" by simp
  also have "\<dots> = (real n \<le> e * e)" by (rule real_sqrt_le_iff)
  finally show ?thesis using True by (simp add: at_least_sqrt_def)
next
  case False
  then have "e < sqrt (real n)"
    by (meson not_le order_less_le_trans real_sqrt_ge_zero of_nat_0_le_iff)
  with False show ?thesis by (simp add: at_least_sqrt_def)
qed

subsection \<open>Scene graph helpers\<close>

lemma attrs_append_child [simp]: "attrs (append_child c n) = attrs n"
  by (cases n) simp

lemma children_append_child [simp]: "children (append_child c n) = children n @ [c]"
  by (cases n) simp

lemma tag_append_child [simp]: "tag (append_child c n) = tag n"
  by (cases n) simp

lemma attrs_attr [simp]: "attrs (attr k v n) = attr_update k v (attrs n)"
  by (cases n) simp

lemma tag_attr [simp]: "tag (attr k v n) = tag n"
  by (cases n) simp

lemma tag_classed_add [simp]: "tag (classed_add names n) = tag n"
  by (simp add: classed_add_def Let_def)

lemma node_eq: "n = Node (tag n) (attrs n) (children n)"
  by (cases n) simp

lemma directionallight_eq:
  "directionallight =
     Node ''directionallight''
       [(''direction'', Text ''1 0 -1''), (''on'', Text ''true''), (''intensity'', Text ''0.4''),
        (''shadowintensity'', Text ''0'')] []"
  by (simp add: directionallight_def element_def)

lemma x3d_element_eq:
  "append_child sc
     (if b then attr ''showStat'' (Text ''true'') (attr ''showLog'' (Text ''true'')
                 (attr ''height'' (Px h) (attr ''width'' (Px w) (element ''x3d''))))
      else attr ''height'' (Px h) (attr ''width'' (Px w) (element ''x3d'')))
   = Node ''x3d''
       ([(''width'', Px w), (''height'', Px h)]
        @ (if b then [(''showLog'', Text ''true''), (''showStat'', Text ''true'')] else []))
       [sc]"
  by (simp add: element_def)

lemma has_class_group:
  "has_class c (Node ''group'' [(''class'', Text ''xAxis'')] cs) = (c = ''xAxis'')"
  "has_class c (Node ''group'' [(''class'', Text ''yAxis'')] cs) = (c = ''yAxis'')"
  "has_class c (Node ''group'' [(''class'', Text ''chart'')] cs) = (c = ''chart'')"
  "has_class c (Node ''group'' [(''class'', Text ''axis'')] cs) = (c = ''axis'')"
  "has_class c (Node ''shape'' [] cs) = False"
  "has_class c (Node ''viewpoint'' [] cs) = False"
  by (auto simp: has_class_def class_tokens_def is_space_def)

subsection \<open>Configuration accessors\<close>

lemmas vertical_accessors =
  barChartVertical_width_def barChartVertical_height_def barChartVertical_dimensions_def
  barChartVertical_xScale_def barChartVertical_yScale_def barChartVertical_colorScale_def
  barChartVertical_colors_def barChartVertical_debug_def

lemmas multi_accessors =
  barChartMultiSeries_width_def barChartMultiSeries_height_def barChartMultiSeries_dimensions_def
  barChartMultiSeries_xScale_def barChartMultiSeries_yScale_def barChartMultiSeries_zScale_def
  barChartMultiSeries_colorScale_def
  barChartMultiSeries_colors_def barChartMultiSeries_debug_def

text \<open>
  Claim C3. Every configuration accessor of either chart (width, height, dimensions,
  xScale, yScale, colorScale, colors, debug, and zScale on the multi-series chart), called
  on the chart instance with a value, returns the chart instance; a later call with no
  argument returns exactly that value.
\<close>

theorem accessor_round_trip:
  "(fst (barChartVertical_width My (Arg w) v) = Object My
      \<and> fst (barChartVertical_width this NoArgs (snd (barChartVertical_width this' (Arg w) v))) = Value w)
   \<and> (fst (barChartVertical_height My (Arg h) v) = Object My
      \<and> fst (barChartVertical_height this NoArgs (snd (barChartVertical_height this' (Arg h) v))) = Value h)
   \<and> (fst (barChartVertical_dimensions My (Arg d) v) = Object My
      \<and> fst (barChartVertical_dimensions this NoArgs (snd (barChartVertical_dimensions this' (Arg d) v))) = Value d)
   \<and> (fst (barChartVertical_xScale My (Arg sx) v) = Object My
      \<and> fst (barChartVertical_xScale this NoArgs (snd (barChartVertical_xScale this' (Arg sx) v))) = Value sx)
   \<and> (fst (barChartVertical_yScale My (Arg sy) v) = Object My
      \<and> fst (barChartVertical_yScale this NoArgs (snd (barChartVertical_yScale this' (Arg sy) v))) = Value sy)
   \<and> (fst (barChartVertical_colorScale My (Arg sc) v) = Object My
      \<and> fst (barChartVertical_colorScale this NoArgs (snd (barChartVertical_colorScale this' (Arg sc) v))) = Value sc)
   \<and> (fst (barChartVertical_colors My (Arg cs) v) = Object My
      \<and> fst (barChartVertical_colors this NoArgs (snd (barChartVertical_colors this' (Arg cs) v))) = Value cs)
   \<and> (fst (barChartVertical_debug My (Arg b) v) = Object My
      \<and> fst (barChartVertical_debug this NoArgs (snd (barChartVertical_debug this' (Arg b) v))) = Value b)
   \<and> (fst (barChartMultiSeries_width My (Arg w) m) = Object My
      \<and> fst (barChartMultiSeries_width this NoArgs (snd (barChartMultiSeries_width this' (Arg w) m))) = Value w)
   \<and> (fst (barChartMultiSeries_height My (Arg h) m) = Object My
      \<and> fst (barChartMultiSeries_height this NoArgs (snd (barChartMultiSeries_height this' (Arg h) m))) = Value h)
   \<and> (fst (barChartMultiSeries_dimensions My (Arg d) m) = Object My
      \<and> fst (barChartMultiSeries_dimensions this NoArgs (snd (barChartMultiSeries_dimensions this' (Arg d) m))) = Value d)
   \<and> (fst (barChartMultiSeries_xScale My (Arg sx) m) = Object My
      \<and> fst (barChartMultiSeries_xScale this NoArgs (snd (barChartMultiSeries_xScale this' (Arg sx) m))) = Value sx)
   \<and> (fst (barChartMultiSeries_yScale My (Arg sy) m) = Object My
      \<and> fst (barChartMultiSeries_yScale this NoArgs (snd (barChartMultiSeries_yScale this' (Arg sy) m))) = Value sy)
   \<and> (fst (barChartMultiSeries_zScale My (Arg sz) m) = Object My
      \<and> fst (barChartMultiSeries_zScale this NoArgs (snd (barChartMultiSeries_zScale this' (Arg sz) m))) = Value sz)
   \<and> (fst (barChartMultiSeries_colorScale My (Arg sc) m) = Object My
      \<and> fst (barChartMultiSeries_colorScale this NoArgs (snd (barChartMultiSeries_colorScale this' (Arg sc) m))) = Value sc)
   \<and> (fst (barChartMultiSeries_colors My (Arg cs) m) = Object My
      \<and> fst (barChartMultiSeries_colors this NoArgs (snd (barChartMultiSeries_colors this' (Arg cs) m))) = Value cs)
   \<and> (fst (barChartMultiSeries_debug My (Arg b) m) = Object My
      \<and> fst (barChartMultiSeries_debug this NoArgs (snd (barChartMultiSeries_debug this' (Arg b) m))) = Value b)"
  by (simp add: vertical_accessors multi_accessors)

text \<open>
  Claim C4. On a freshly constructed chart, the accessors called with no argument return
  the defaults: width 500, height 500, dimensions 40 by 40 by 40, the five colors, debug
  false, and \<open>undefined\<close> for every scale.
\<close>

theorem accessor_defaults:
  "fst (barChartVertical_width this NoArgs barChartVertical) = Value 500
   \<and> fst (barChartVertical_height this NoArgs barChartVertical) = Value 500
   \<and> fst (barChartVertical_dimensions this NoArgs barChartVertical)
       = Value \<lparr>dim_x = 40, dim_y = 40, dim_z = 40\<rparr>
   \<and> fst (barChartVertical_colors this NoArgs barChartVertical)
       = Value [''green'', ''red'', ''yellow'', ''steelblue'', ''orange'']
   \<and> fst (barChartVertical_debug this NoArgs barChartVertical) = Value False
   \<and> fst (barChartVertical_xScale this NoArgs barChartVertical) = Value None
   \<and> fst (barChartVertical_yScale this NoArgs barChartVertical) = Value None
   \<and> fst (barChartVertical_colorScale this NoArgs barChartVertical) = Value None
   \<and> fst (barChartMultiSeries_width this NoArgs barChartMultiSeries) = Value 500
   \<and> fst (barChartMultiSeries_height this NoArgs barChartMultiSeries) = Value 500
   \<and> fst (barChartMultiSeries_dimensions this NoArgs barChartMultiSeries)
       = Value \<lparr>dim_x = 40, dim_y = 40, dim_z = 40\<rparr>
   \<and> fst (barChartMultiSeries_colors this NoArgs barChartMultiSeries)
       = Value [''green'', ''red'', ''yellow'', ''steelblue'', ''orange'']
   \<and> fst (barChartMultiSeries_debug this NoArgs barChartMultiSeries) = Value False
   \<and> fst (barChartMultiSeries_xScale this NoArgs barChartMultiSeries) = Value None
   \<and> fst (barChartMultiSeries_yScale this NoArgs barChartMultiSeries) = Value None
   \<and> fst (barChartMultiSeries_zScale this NoArgs barChartMultiSeries) = Value None
   \<and> fst (barChartMultiSeries_colorScale this NoArgs barChartMultiSeries) = Value None"
  by (simp add: vertical_accessors multi_accessors barChartVertical_def barChartMultiSeries_def)

subsection \<open>The y-scale of the multi-series chart\<close>

lemma multi_init_yScale: "yScale (barChartMultiSeries_init data s) = yScale s"
  by (simp add: barChartMultiSeries_init_def Let_def)

lemma multi_my_vars:
  "vars_after (barChartMultiSeries_my cmp data s) = s
   \<or> vars_after (barChartMultiSeries_my cmp data s) = barChartMultiSeries_init data s"
  by (auto simp: barChartMultiSeries_my_def Let_def split: outcome.splits prod.splits bool.splits)

text \<open>
  Claim C1. In the multi-series chart, when the caller has supplied no y-scale, \<open>init\<close>
  leaves \<open>yScale\<close> undefined: the getter returns \<open>undefined\<close> after \<open>init\<close> and after a
  render, and both sub-components are handed an undefined y-scale.
\<close>

theorem multi_yScale_stays_undefined:
  "yScale s = None \<Longrightarrow>
     fst (barChartMultiSeries_yScale this NoArgs (barChartMultiSeries_init data s)) = Value None
     \<and> atp_yScale (barChartMultiSeries_axis (barChartMultiSeries_init data s)) = None
     \<and> bms_yScale (barChartMultiSeries_chart (barChartMultiSeries_init data s)) = None
     \<and> fst (barChartMultiSeries_yScale this NoArgs
           (vars_after (barChartMultiSeries_my cmp data s))) = Value None"
  using multi_my_vars [of cmp data s]
  by (auto simp: multi_init_yScale barChartMultiSeries_yScale_def barChartMultiSeries_axis_def
        barChartMultiSeries_chart_def)

theorem multi_yScale_stays_undefined_witness:
  "yScale barChartMultiSeries = None
   \<and> fst (barChartMultiSeries_yScale My NoArgs
         (barChartMultiSeries_init dataset_AB barChartMultiSeries)) = Value None
   \<and> atp_yScale (barChartMultiSeries_axis (barChartMultiSeries_init dataset_AB barChartMultiSeries)) = None
   \<and> bms_yScale (barChartMultiSeries_chart (barChartMultiSeries_init dataset_AB barChartMultiSeries)) = None
   \<and> fst (barChartMultiSeries_yScale My NoArgs
         (vars_after (barChartMultiSeries_my appending dataset_AB barChartMultiSeries))) = Value None"
  using multi_yScale_stays_undefined [of barChartMultiSeries My dataset_AB appending]
  by (simp add: barChartMultiSeries_def)

subsection \<open>The debug flag\<close>

lemma x3d_of_vertical:
  "\<exists>scene. x3d_of (barChartVertical_my cmp data s) =
     append_child scene
       (if debug s
        then attr ''showStat'' (Text ''true'') (attr ''showLog'' (Text ''true'')
               (attr ''height'' (Px (height s)) (attr ''width'' (Px (width s)) (element ''x3d''))))
        else attr ''height'' (Px (height s)) (attr ''width'' (Px (width s)) (element ''x3d'')))"
  unfolding barChartVertical_my_def Let_def
  by (auto split: outcome.splits option.splits prod.splits bool.splits)

lemma x3d_of_multi:
  "\<exists>scene. x3d_of (barChartMultiSeries_my cmp data s) =
     append_child scene
       (if debug s
        then attr ''showStat'' (Text ''true'') (attr ''showLog'' (Text ''true'')
               (attr ''height'' (Px (height s)) (attr ''width'' (Px (width s)) (element ''x3d''))))
        else attr ''height'' (Px (height s)) (attr ''width'' (Px (width s)) (element ''x3d'')))"
  unfolding barChartMultiSeries_my_def Let_def
  by (auto split: outcome.splits option.splits prod.splits bool.splits)

lemma x3d_attrs_vertical:
  "attrs (x3d_of (barChartVertical_my cmp data s)) =
     [(''width'', Px (width s)), (''height'', Px (height s))]
     @ (if debug s then [(''showLog'', Text ''true''), (''showStat'', Text ''true'')] else [])"
  using x3d_of_vertical [of cmp data s] by (auto simp: element_def)

lemma x3d_attrs_multi:
  "attrs (x3d_of (barChartMultiSeries_my cmp data s)) =
     [(''width'', Px (width s)), (''height'', Px (height s))]
     @ (if debug s then [(''showLog'', Text ''true''), (''showStat'', Text ''true'')] else [])"
  using x3d_of_multi [of cmp data s] by (auto simp: element_def)

text \<open>
  Claim C7. In both charts, a render with the debug flag set puts the attributes
  \<open>showLog\<close> and \<open>showStat\<close>, both \<open>"true"\<close>, on the \<open>x3d\<close> element; a render with the flag
  unset puts neither.
\<close>

theorem debug_attributes:
  "(debug v \<longrightarrow>
      map_of (attrs (x3d_of (barChartVertical_my cmp data v))) ''showLog'' = Some (Text ''true'')
    \<and> map_of (attrs (x3d_of (barChartVertical_my cmp data v))) ''showStat'' = Some (Text ''true''))
   \<and> (\<not> debug v \<longrightarrow>
      map_of (attrs (x3d_of (barChartVertical_my cmp data v))) ''showLog'' = None
    \<and> map_of (attrs (x3d_of (barChartVertical_my cmp data v))) ''showStat'' = None)
   \<and> (debug m \<longrightarrow>
      map_of (attrs (x3d_of (barChartMultiSeries_my cmp data m))) ''showLog'' = Some (Text ''true'')
    \<and> map_of (attrs (x3d_of (barChartMultiSeries_my cmp data m))) ''showStat'' = Some (Text ''true''))
   \<and> (\<not> debug m \<longrightarrow>
      map_of (attrs (x3d_of (barChartMultiSeries_my cmp data m))) ''showLog'' = None
    \<and> map_of (attrs (x3d_of (barChartMultiSeries_my cmp data m))) ''showStat'' = None)"
  by (simp add: x3d_attrs_vertical x3d_attrs_multi)

theorem debug_attributes_witness:
  "debug (barChartVertical\<lparr>debug := True\<rparr>) \<and> \<not> debug barChartVertical
   \<and> debug (barChartMultiSeries\<lparr>debug := True\<rparr>) \<and> \<not> debug barChartMultiSeries
   \<and> map_of (attrs (x3d_of (barChartVertical_my appending dataset_AB (barChartVertical\<lparr>debug := True\<rparr>)))) ''showLog'' = Some (Text ''true'')
   \<and> map_of (attrs (x3d_of (barChartVertical_my appending dataset_AB barChartVertical))) ''showLog'' = None
   \<and> map_of (attrs (x3d_of (barChartMultiSeries_my appending dataset_AB (barChartMultiSeries\<lparr>debug := True\<rparr>)))) ''showStat'' = Some (Text ''true'')
   \<and> map_of (attrs (x3d_of (barChartMultiSeries_my appending dataset_AB barChartMultiSeries))) ''showStat'' = None"
  using debug_attributes [where v = "barChartVertical\<lparr>debug := True\<rparr>" and cmp = appending
      and data = dataset_AB and m = "barChartMultiSeries\<lparr>debug := True\<rparr>"]
    debug_attributes [where v = barChartVertical and cmp = appending
      and data = dataset_AB and m = barChartMultiSeries]
  by (simp add: barChartVertical_def barChartMultiSeries_def)


subsection \<open>What init changes\<close>

lemma vertical_init_eq:
  "barChartVertical_init data s =
     s\<lparr>xScale := Some (case xScale s of
          None \<Rightarrow> band_padding_set (1/2) (band_rangeRound (0, dim_x (dimensions s))
                    (band_domain_set (columnKeys (dataTransform_summary data)) scaleBand))
        | Some b \<Rightarrow> b),
       yScale := Some (case yScale s of
          None \<Rightarrow> linear_nice (linear_range_set [0, dim_y (dimensions s)]
                    (linear_domain_set [Some 0, maxValue (dataTransform_summary data)] scaleLinear))
        | Some l \<Rightarrow> l),
       colorScale := Some (case colorScale s of
          None \<Rightarrow> ordinal_range_set (colors s)
                    (ordinal_domain_set (columnKeys (dataTransform_summary data)) scaleOrdinal)
        | Some c \<Rightarrow> c)\<rparr>"
  by (cases "xScale s"; cases "yScale s"; cases "colorScale s")
     (simp_all add: barChartVertical_init_def Let_def)

lemma multi_init_eq:
  "barChartMultiSeries_init data s =
     s\<lparr>xScale := Some (case xScale s of
          None \<Rightarrow> band_padding_set (1/2) (band_rangeRound (0, dim_x (dimensions s))
                    (band_domain_set (columnKeys (dataTransform_summary data)) scaleBand))
        | Some b \<Rightarrow> b),
       zScale := Some (case zScale s of
          None \<Rightarrow> band_padding_set (7/10) (band_range_set (0, dim_z (dimensions s))
                    (band_domain_set (rowKeys (dataTransform_summary data)) scaleBand))
        | Some b \<Rightarrow> b),
       colorScale := Some (case colorScale s of
          None \<Rightarrow> ordinal_range_set (colors s)
                    (ordinal_domain_set (columnKeys (dataTransform_summary data)) scaleOrdinal)
        | Some c \<Rightarrow> c)\<rparr>"
  by (cases "xScale s"; cases "zScale s"; cases "colorScale s")
     (simp_all add: barChartMultiSeries_init_def Let_def)

lemma vertical_init_frame:
  "width (barChartVertical_init data s) = width s"
  "height (barChartVertical_init data s) = height s"
  "dimensions (barChartVertical_init data s) = dimensions s"
  "colors (barChartVertical_init data s) = colors s"
  "classed (barChartVertical_init data s) = classed s"
  "debug (barChartVertical_init data s) = debug s"
  by (simp_all add: barChartVertical_init_def Let_def)

lemma multi_init_frame:
  "width (barChartMultiSeries_init data s) = width s"
  "height (barChartMultiSeries_init data s) = height s"
  "dimensions (barChartMultiSeries_init data s) = dimensions s"
  "colors (barChartMultiSeries_init data s) = colors s"
  "classed (barChartMultiSeries_init data s) = classed s"
  "debug (barChartMultiSeries_init data s) = debug s"
  by (simp_all add: barChartMultiSeries_init_def Let_def)

lemma vertical_init_kept:
  "xScale s = Some bx \<Longrightarrow> xScale (barChartVertical_init data s) = Some bx"
  "yScale s = Some ly \<Longrightarrow> yScale (barChartVertical_init data s) = Some ly"
  "colorScale s = Some oc \<Longrightarrow> colorScale (barChartVertical_init data s) = Some oc"
  by (simp_all add: barChartVertical_init_def Let_def)

lemma multi_init_kept:
  "xScale s = Some bx \<Longrightarrow> xScale (barChartMultiSeries_init data s) = Some bx"
  "yScale s = Some ly \<Longrightarrow> yScale (barChartMultiSeries_init data s) = Some ly"
  "zScale s = Some bz \<Longrightarrow> zScale (barChartMultiSeries_init data s) = Some bz"
  "colorScale s = Some oc \<Longrightarrow> colorScale (barChartMultiSeries_init data s) = Some oc"
  by (simp_all add: barChartMultiSeries_init_def Let_def)

lemma vertical_init_defined:
  "xScale (barChartVertical_init data s) \<noteq> None"
  "yScale (barChartVertical_init data s) \<noteq> None"
  "colorScale (barChartVertical_init data s) \<noteq> None"
  by (simp_all add: barChartVertical_init_def Let_def)

lemma vertical_init_idem:
  "barChartVertical_init data (barChartVertical_init data s) = barChartVertical_init data s"
proof -
  obtain bx ly oc where
    "xScale (barChartVertical_init data s) = Some bx"
    "yScale (barChartVertical_init data s) = Some ly"
    "colorScale (barChartVertical_init data s) = Some oc"
    using vertical_init_defined [of data s] by auto
  then show ?thesis
    by (simp add: barChartVertical_init_def [of data "barChartVertical_init data s"] Let_def)
qed

lemma multi_init_idem:
  "barChartMultiSeries_init data (barChartMultiSeries_init data s) = barChartMultiSeries_init data s"
proof -
  have "xScale (barChartMultiSeries_init data s) \<noteq> None"
    "zScale (barChartMultiSeries_init data s) \<noteq> None"
    "colorScale (barChartMultiSeries_init data s) \<noteq> None"
    by (simp_all add: barChartMultiSeries_init_def Let_def)
  then obtain bx bz oc where
    "xScale (barChartMultiSeries_init data s) = Some bx"
    "zScale (barChartMultiSeries_init data s) = Some bz"
    "colorScale (barChartMultiSeries_init data s) = Some oc"
    by auto
  then show ?thesis
    by (simp add: barChartMultiSeries_init_def [of data "barChartMultiSeries_init data s"] Let_def)
qed

lemma vertical_my_vars:
  "vars_after (barChartVertical_my cmp data s) =
     (case viewpoint cmp barChartVertical_viewpoint (barChartVertical_scene s) of
        Threw n \<Rightarrow> s | Returned n \<Rightarrow> barChartVertical_init data s)"
  by (simp add: barChartVertical_my_def Let_def split: outcome.splits option.splits prod.splits bool.splits)

lemma multi_my_vars_cases:
  "vars_after (barChartMultiSeries_my cmp data s) =
     (case viewpoint cmp (barChartMultiSeries_viewpoint s) (barChartMultiSeries_scene s) of
        Threw n \<Rightarrow> s | Returned n \<Rightarrow> barChartMultiSeries_init data s)"
  by (simp add: barChartMultiSeries_my_def Let_def split: outcome.splits option.splits prod.splits bool.splits)

lemma vertical_my_after_init:
  "viewpoint cmp barChartVertical_viewpoint (barChartVertical_scene s) = Returned n \<Longrightarrow>
   barChartVertical_my cmp data (barChartVertical_init data s) = barChartVertical_my cmp data s"
  by (simp add: barChartVertical_my_def Let_def vertical_init_frame vertical_init_idem
        barChartVertical_scene_def)

lemma multi_my_after_init:
  "viewpoint cmp (barChartMultiSeries_viewpoint s) (barChartMultiSeries_scene s) = Returned n \<Longrightarrow>
   barChartMultiSeries_my cmp data (barChartMultiSeries_init data s) = barChartMultiSeries_my cmp data s"
  by (simp add: barChartMultiSeries_my_def Let_def multi_init_frame multi_init_idem
        barChartMultiSeries_scene_def barChartMultiSeries_viewpoint_def)

lemma children_attr [simp]: "children (attr k v n) = children n"
  by (cases n) simp

lemma children_classed_add [simp]: "children (classed_add names n) = children n"
  by (simp add: classed_add_def Let_def)

lemma vertical_scene_groups:
  "children (barChartVertical_scene s) =
     [Node ''group'' [(''class'', Text ''xAxis'')] [], Node ''group'' [(''class'', Text ''yAxis'')] [],
      Node ''group'' [(''class'', Text ''chart'')] []]"
  by (simp add: barChartVertical_scene_def enter_groups_def element_def)

lemma multi_scene_groups:
  "children (barChartMultiSeries_scene s) =
     [Node ''group'' [(''class'', Text ''axis'')] [], Node ''group'' [(''class'', Text ''chart'')] []]"
  by (simp add: barChartMultiSeries_scene_def enter_groups_def element_def)

lemma vertical_my_again:
  "barChartVertical_my cmp data (vars_after (barChartVertical_my cmp data s))
     = barChartVertical_my cmp data s"
  by (cases "viewpoint cmp barChartVertical_viewpoint (barChartVertical_scene s)")
     (simp_all add: vertical_my_vars vertical_my_after_init)

lemma multi_my_again:
  "barChartMultiSeries_my cmp data (vars_after (barChartMultiSeries_my cmp data s))
     = barChartMultiSeries_my cmp data s"
  by (cases "viewpoint cmp (barChartMultiSeries_viewpoint s) (barChartMultiSeries_scene s)")
     (simp_all add: multi_my_vars_cases multi_my_after_init)

lemma vertical_my_repeated:
  "barChartVertical_my cmp data (((\<lambda>s. vars_after (barChartVertical_my cmp data s)) ^^ k) s)
     = barChartVertical_my cmp data s"
  by (induction k) (simp_all add: vertical_my_again)

lemma multi_my_repeated:
  "barChartMultiSeries_my cmp data (((\<lambda>s. vars_after (barChartMultiSeries_my cmp data s)) ^^ k) s)
     = barChartMultiSeries_my cmp data s"
  by (induction k) (simp_all add: multi_my_again)

lemma vertical_scene_eq:
  "barChartVertical_scene s =
     Node ''scene'' (attrs (classed_add (classed s) (element ''scene'')))
       [Node ''group'' [(''class'', Text ''xAxis'')] [], Node ''group'' [(''class'', Text ''yAxis'')] [],
        Node ''group'' [(''class'', Text ''chart'')] []]"
proof -
  obtain t a c where n: "classed_add (classed s) (element ''scene'') = Node t a c"
    by (cases "classed_add (classed s) (element ''scene'')")
  have "tag (classed_add (classed s) (element ''scene'')) = ''scene''"
    "children (classed_add (classed s) (element ''scene'')) = []"
    by (simp_all add: element_def)
  with n have "t = ''scene''" "c = []" by simp_all
  with n show ?thesis
    by (simp add: barChartVertical_scene_def enter_groups_def element_def)
qed

lemma multi_scene_eq:
  "barChartMultiSeries_scene s =
     Node ''scene'' (attrs (classed_add (classed s) (element ''scene'')))
       [Node ''group'' [(''class'', Text ''axis'')] [], Node ''group'' [(''class'', Text ''chart'')] []]"
proof -
  obtain t a c where n: "classed_add (classed s) (element ''scene'') = Node t a c"
    by (cases "classed_add (classed s) (element ''scene'')")
  have "tag (classed_add (classed s) (element ''scene'')) = ''scene''"
    "children (classed_add (classed s) (element ''scene'')) = []"
    by (simp_all add: element_def)
  with n have "t = ''scene''" "c = []" by simp_all
  with n show ?thesis
    by (simp add: barChartMultiSeries_scene_def enter_groups_def element_def)
qed

lemma vertical_tree_viewpoint_throwing:
  "barChartVertical_my (viewpoint_throwing cmp) data v =
     Run v
       (Node ''x3d''
          ([(''width'', Px (width v)), (''height'', Px (height v))]
           @ (if debug v then [(''showLog'', Text ''true''), (''showStat'', Text ''true'')] else []))
          [Node ''scene'' (attrs (classed_add (classed v) (element ''scene'')))
             [Node ''group'' [(''class'', Text ''xAxis'')] [],
              Node ''group'' [(''class'', Text ''yAxis'')] [],
              Node ''group'' [(''class'', Text ''chart'')] []]])
       True"
  unfolding barChartVertical_my_def Let_def x3d_element_eq vertical_scene_eq
  by (simp add: viewpoint_throwing_def)

lemma multi_tree_viewpoint_throwing:
  "barChartMultiSeries_my (viewpoint_throwing cmp) data m =
     Run m
       (Node ''x3d''
          ([(''width'', Px (width m)), (''height'', Px (height m))]
           @ (if debug m then [(''showLog'', Text ''true''), (''showStat'', Text ''true'')] else []))
          [Node ''scene'' (attrs (classed_add (classed m) (element ''scene'')))
             [Node ''group'' [(''class'', Text ''axis'')] [],
              Node ''group'' [(''class'', Text ''chart'')] []]])
       True"
  unfolding barChartMultiSeries_my_def Let_def x3d_element_eq multi_scene_eq
  by (simp add: viewpoint_throwing_def)

lemma vertical_tree_appending:
  "x3d_of (barChartVertical_my appending data v) =
     Node ''x3d''
       ([(''width'', Px (width v)), (''height'', Px (height v))]
        @ (if debug v then [(''showLog'', Text ''true''), (''showStat'', Text ''true'')] else []))
       [Node ''scene'' (attrs (classed_add (classed v) (element ''scene'')))
          [Node ''group'' [(''class'', Text ''xAxis'')] [Node ''shape'' [] []],
           Node ''group'' [(''class'', Text ''yAxis'')] [Node ''shape'' [] []],
           Node ''group'' [(''class'', Text ''chart'')] [Node ''shape'' [] []],
           Node ''viewpoint'' [] []]]
   \<and> threw (barChartVertical_my appending data v) = False"
proof -
  obtain c where c: "barChartVertical_yAxis (barChartVertical_init data v) = Some c"
    using vertical_init_defined(2) [of data v]
    by (auto simp: barChartVertical_yAxis_def split: option.splits)
  show ?thesis
    unfolding barChartVertical_my_def Let_def x3d_element_eq vertical_scene_eq
    by (simp add: c appending_def select_call_def has_class_group element_def)
qed

lemma multi_tree_appending:
  "x3d_of (barChartMultiSeries_my appending data m) =
     Node ''x3d''
       ([(''width'', Px (width m)), (''height'', Px (height m))]
        @ (if debug m then [(''showLog'', Text ''true''), (''showStat'', Text ''true'')] else []))
       [Node ''scene'' (attrs (classed_add (classed m) (element ''scene'')))
          [Node ''group'' [(''class'', Text ''axis'')]
             (if yScale m = None then [] else [Node ''shape'' [] []]),
           Node ''group'' [(''class'', Text ''chart'')]
             (if yScale m = None then [] else [Node ''shape'' [] []]),
           Node ''viewpoint'' [] [],
           Node ''directionallight''
             [(''direction'', Text ''1 0 -1''), (''on'', Text ''true''),
              (''intensity'', Text ''0.4''), (''shadowintensity'', Text ''0'')] []]]
   \<and> threw (barChartMultiSeries_my appending data m) = (yScale m = None)"
proof (cases "yScale m")
  case None
  then have "yScale (barChartMultiSeries_init data m) = None"
    by (simp add: multi_init_yScale)
  with None show ?thesis
    unfolding barChartMultiSeries_my_def Let_def x3d_element_eq multi_scene_eq
    by (simp add: appending_def select_call_def has_class_group element_def
        directionallight_eq barChartMultiSeries_axis_def)
next
  case (Some ly)
  then have "yScale (barChartMultiSeries_init data m) = Some ly"
    by (simp add: multi_init_yScale)
  with Some show ?thesis
    unfolding barChartMultiSeries_my_def Let_def x3d_element_eq multi_scene_eq
    by (simp add: appending_def select_call_def has_class_group element_def
        directionallight_eq barChartMultiSeries_axis_def)
qed

text \<open>
  Claim C8. Rendering the same dataset again, each time into a fresh container, with the
  configuration untouched, gives the same result however often the chart has rendered it
  before: the same scene graph (hence the same groups and the same primitives in them)
  and the same outcome, whatever the sub-components do on the nodes they are called on.
  The rendered tree holds one scene with the groups \<open>xAxis\<close>, \<open>yAxis\<close>, \<open>chart\<close>
  (vertical) or \<open>axis\<close>, \<open>chart\<close> (multi-series): they are all the scene holds when the
  viewpoint component throws at once, and with sub-components that append one element
  each, every render of the vertical chart holds one primitive per group and the
  viewpoint, and every render of the multi-series chart one primitive per group (none
  while the y-scale is undefined), the viewpoint and the light.
\<close>

theorem render_repeatedly_same:
  "barChartVertical_my cmp data (((\<lambda>s. vars_after (barChartVertical_my cmp data s)) ^^ k) v)
     = barChartVertical_my cmp data v
   \<and> barChartMultiSeries_my cmp data (((\<lambda>s. vars_after (barChartMultiSeries_my cmp data s)) ^^ k) m)
     = barChartMultiSeries_my cmp data m
   \<and> map (\<lambda>g. (tag g, attrs g)) (children (barChartVertical_scene v))
     = [(''group'', [(''class'', Text ''xAxis'')]), (''group'', [(''class'', Text ''yAxis'')]),
        (''group'', [(''class'', Text ''chart'')])]
   \<and> map (\<lambda>g. (tag g, attrs g)) (children (barChartMultiSeries_scene m))
     = [(''group'', [(''class'', Text ''axis'')]), (''group'', [(''class'', Text ''chart'')])]
   \<and> barChartVertical_my (viewpoint_throwing cmp) data v =
       Run v
         (Node ''x3d''
            ([(''width'', Px (width v)), (''height'', Px (height v))]
             @ (if debug v then [(''showLog'', Text ''true''), (''showStat'', Text ''true'')] else []))
            [Node ''scene'' (attrs (classed_add (classed v) (element ''scene'')))
               [Node ''group'' [(''class'', Text ''xAxis'')] [],
                Node ''group'' [(''class'', Text ''yAxis'')] [],
                Node ''group'' [(''class'', Text ''chart'')] []]])
         True
   \<and> barChartMultiSeries_my (viewpoint_throwing cmp) data m =
       Run m
         (Node ''x3d''
            ([(''width'', Px (width m)), (''height'', Px (height m))]
             @ (if debug m then [(''showLog'', Text ''true''), (''showStat'', Text ''true'')] else []))
            [Node ''scene'' (attrs (classed_add (classed m) (element ''scene'')))
               [Node ''group'' [(''class'', Text ''axis'')] [],
                Node ''group'' [(''class'', Text ''chart'')] []]])
         True
   \<and> x3d_of (barChartVertical_my appending data
         (((\<lambda>s. vars_after (barChartVertical_my appending data s)) ^^ k) v)) =
       Node ''x3d''
         ([(''width'', Px (width v)), (''height'', Px (height v))]
          @ (if debug v then [(''showLog'', Text ''true''), (''showStat'', Text ''true'')] else []))
         [Node ''scene'' (attrs (classed_add (classed v) (element ''scene'')))
            [Node ''group'' [(''class'', Text ''xAxis'')] [Node ''shape'' [] []],
             Node ''group'' [(''class'', Text ''yAxis'')] [Node ''shape'' [] []],
             Node ''group'' [(''class'', Text ''chart'')] [Node ''shape'' [] []],
             Node ''viewpoint'' [] []]]
   \<and> threw (barChartVertical_my appending data
         (((\<lambda>s. vars_after (barChartVertical_my appending data s)) ^^ k) v)) = False
   \<and> x3d_of (barChartMultiSeries_my appending data
         (((\<lambda>s. vars_after (barChartMultiSeries_my appending data s)) ^^ k) m)) =
       Node ''x3d''
         ([(''width'', Px (width m)), (''height'', Px (height m))]
          @ (if debug m then [(''showLog'', Text ''true''), (''showStat'', Text ''true'')] else []))
         [Node ''scene'' (attrs (classed_add (classed m) (element ''scene'')))
            [Node ''group'' [(''class'', Text ''axis'')]
               (if yScale m = None then [] else [Node ''shape'' [] []]),
             Node ''group'' [(''class'', Text ''chart'')]
               (if yScale m = None then [] else [Node ''shape'' [] []]),
             Node ''viewpoint'' [] [],
             Node ''directionallight''
               [(''direction'', Text ''1 0 -1''), (''on'', Text ''true''),
                (''intensity'', Text ''0.4''), (''shadowintensity'', Text ''0'')] []]]
   \<and> threw (barChartMultiSeries_my appending data
         (((\<lambda>s. vars_after (barChartMultiSeries_my appending data s)) ^^ k) m))
       = (yScale m = None)"
proof -
  have "barChartVertical_my cmp data (((\<lambda>s. vars_after (barChartVertical_my cmp data s)) ^^ k) v)
     = barChartVertical_my cmp data v"
    by (rule vertical_my_repeated)
  moreover have "barChartMultiSeries_my cmp data
       (((\<lambda>s. vars_after (barChartMultiSeries_my cmp data s)) ^^ k) m)
     = barChartMultiSeries_my cmp data m"
    by (rule multi_my_repeated)
  moreover have "map (\<lambda>g. (tag g, attrs g)) (children (barChartVertical_scene v))
     = [(''group'', [(''class'', Text ''xAxis'')]), (''group'', [(''class'', Text ''yAxis'')]),
        (''group'', [(''class'', Text ''chart'')])]"
    by (simp add: vertical_scene_groups)
  moreover have "map (\<lambda>g. (tag g, attrs g)) (children (barChartMultiSeries_scene m))
     = [(''group'', [(''class'', Text ''axis'')]), (''group'', [(''class'', Text ''chart'')])]"
    by (simp add: multi_scene_groups)
  moreover note vertical_tree_viewpoint_throwing [of cmp data v]
    multi_tree_viewpoint_throwing [of cmp data m]
  moreover have "barChartVertical_my appending data
       (((\<lambda>s. vars_after (barChartVertical_my appending data s)) ^^ k) v)
     = barChartVertical_my appending data v"
    by (rule vertical_my_repeated)
  moreover have "barChartMultiSeries_my appending data
       (((\<lambda>s. vars_after (barChartMultiSeries_my appending data s)) ^^ k) m)
     = barChartMultiSeries_my appending data m"
    by (rule multi_my_repeated)
  moreover note vertical_tree_appending [of data v] multi_tree_appending [of data m]
  ultimately show ?thesis by simp
qed

lemma with_xScale_simps:
  "viewpoint (with_xScale bx cmp) = viewpoint cmp"
  "axis (with_xScale bx cmp) c = axis cmp (if axis_dir c = ''x'' then c\<lparr>axis_scale := Some (Band bx)\<rparr> else c)"
  "bars (with_xScale bx cmp) b = bars cmp (b\<lparr>bars_xScale := Some bx\<rparr>)"
  "axisThreePlane (with_xScale bx cmp) a = axisThreePlane cmp (a\<lparr>atp_xScale := Some bx\<rparr>)"
  "barsMultiSeries (with_xScale bx cmp) d = barsMultiSeries cmp (d\<lparr>bms_xScale := Some bx\<rparr>)"
  by (simp_all add: with_xScale_def)

lemma with_yScale_simps:
  "viewpoint (with_yScale ly cmp) = viewpoint cmp"
  "axis (with_yScale ly cmp) c = axis cmp (if axis_dir c = ''y'' then c\<lparr>axis_scale := Some (Linear ly)\<rparr> else c)"
  "bars (with_yScale ly cmp) b = bars cmp (b\<lparr>bars_yScale := Some ly\<rparr>)"
  "axisThreePlane (with_yScale ly cmp) a = axisThreePlane cmp (a\<lparr>atp_yScale := Some ly\<rparr>)"
  "barsMultiSeries (with_yScale ly cmp) d = barsMultiSeries cmp (d\<lparr>bms_yScale := Some ly\<rparr>)"
  by (simp_all add: with_yScale_def)

lemma with_zScale_simps:
  "viewpoint (with_zScale bz cmp) = viewpoint cmp"
  "axisThreePlane (with_zScale bz cmp) a = axisThreePlane cmp (a\<lparr>atp_zScale := Some bz\<rparr>)"
  "barsMultiSeries (with_zScale bz cmp) d = barsMultiSeries cmp (d\<lparr>bms_zScale := Some bz\<rparr>)"
  by (simp_all add: with_zScale_def)

lemma vertical_my_with_xScale:
  assumes "xScale v = Some bx"
  shows "barChartVertical_my (with_xScale bx cmp) data v = barChartVertical_my cmp data v"
proof -
  let ?s = "barChartVertical_init data v"
  have x: "xScale ?s = Some bx" using assms by (rule vertical_init_kept)
  have ya: "\<And>c. barChartVertical_yAxis ?s = Some c \<Longrightarrow> axis_dir c = ''y''"
    by (auto simp: barChartVertical_yAxis_def split: option.splits)
  have 1: "(barChartVertical_xAxis ?s)\<lparr>axis_scale := Some (Band bx)\<rparr> = barChartVertical_xAxis ?s"
    "axis_dir (barChartVertical_xAxis ?s) = ''x''"
    "(barChartVertical_chart ?s)\<lparr>bars_xScale := Some bx\<rparr> = barChartVertical_chart ?s"
    using x by (simp_all add: barChartVertical_xAxis_def barChartVertical_chart_def)
  show ?thesis
  proof (cases "barChartVertical_yAxis ?s")
    case None
    then show ?thesis
      by (simp add: barChartVertical_my_def Let_def with_xScale_simps 1 split: outcome.splits prod.splits bool.splits)
  next
    case (Some c)
    with ya have "axis_dir c = ''y''" by blast
    with Some show ?thesis
      by (simp add: barChartVertical_my_def Let_def with_xScale_simps 1 split: outcome.splits prod.splits bool.splits)
  qed
qed

lemma vertical_my_with_yScale:
  assumes "yScale v = Some ly"
  shows "barChartVertical_my (with_yScale ly cmp) data v = barChartVertical_my cmp data v"
proof -
  let ?s = "barChartVertical_init data v"
  have y: "yScale ?s = Some ly" using assms by (rule vertical_init_kept)
  have ya: "barChartVertical_yAxis ?s =
      Some \<lparr>axis_scale = Some (Linear ly), axis_dir = ''y'', axis_tickDir = ''x'',
            axis_tickSize = Some (range_extent ly)\<rparr>"
    using y by (simp add: barChartVertical_yAxis_def)
  have 1: "axis_dir (barChartVertical_xAxis ?s) = ''x''"
    "(barChartVertical_chart ?s)\<lparr>bars_yScale := Some ly\<rparr> = barChartVertical_chart ?s"
    using y by (simp_all add: barChartVertical_xAxis_def barChartVertical_chart_def)
  show ?thesis
    by (simp add: barChartVertical_my_def Let_def with_yScale_simps 1 ya split: outcome.splits prod.splits bool.splits)
qed

lemma multi_my_with_xScale:
  assumes "xScale m = Some bx"
  shows "barChartMultiSeries_my (with_xScale bx cmp) data m = barChartMultiSeries_my cmp data m"
proof -
  let ?s = "barChartMultiSeries_init data m"
  have x: "xScale ?s = Some bx" using assms by (rule multi_init_kept)
  have 1: "(barChartMultiSeries_axis ?s)\<lparr>atp_xScale := Some bx\<rparr> = barChartMultiSeries_axis ?s"
    "(barChartMultiSeries_chart ?s)\<lparr>bms_xScale := Some bx\<rparr> = barChartMultiSeries_chart ?s"
    using x by (simp_all add: barChartMultiSeries_axis_def barChartMultiSeries_chart_def)
  show ?thesis
    by (simp add: barChartMultiSeries_my_def Let_def with_xScale_simps 1 split: outcome.splits prod.splits bool.splits)
qed

lemma multi_my_with_yScale:
  assumes "yScale m = Some ly"
  shows "barChartMultiSeries_my (with_yScale ly cmp) data m = barChartMultiSeries_my cmp data m"
proof -
  let ?s = "barChartMultiSeries_init data m"
  have y: "yScale ?s = Some ly" using assms by (rule multi_init_kept)
  have 1: "(barChartMultiSeries_axis ?s)\<lparr>atp_yScale := Some ly\<rparr> = barChartMultiSeries_axis ?s"
    "(barChartMultiSeries_chart ?s)\<lparr>bms_yScale := Some ly\<rparr> = barChartMultiSeries_chart ?s"
    using y by (simp_all add: barChartMultiSeries_axis_def barChartMultiSeries_chart_def)
  show ?thesis
    by (simp add: barChartMultiSeries_my_def Let_def with_yScale_simps 1 split: outcome.splits prod.splits bool.splits)
qed

lemma multi_my_with_zScale:
  assumes "zScale m = Some bz"
  shows "barChartMultiSeries_my (with_zScale bz cmp) data m = barChartMultiSeries_my cmp data m"
proof -
  let ?s = "barChartMultiSeries_init data m"
  have z: "zScale ?s = Some bz" using assms by (rule multi_init_kept)
  have 1: "(barChartMultiSeries_axis ?s)\<lparr>atp_zScale := Some bz\<rparr> = barChartMultiSeries_axis ?s"
    "(barChartMultiSeries_chart ?s)\<lparr>bms_zScale := Some bz\<rparr> = barChartMultiSeries_chart ?s"
    using z by (simp_all add: barChartMultiSeries_axis_def barChartMultiSeries_chart_def)
  show ?thesis
    by (simp add: barChartMultiSeries_my_def Let_def with_zScale_simps 1 split: outcome.splits prod.splits bool.splits)
qed

text \<open>
  Claim C2. A scale the caller has supplied is left as it is by \<open>init\<close>, is still the
  value of the variable after the render, and is the scale bound into every sub-component
  that takes one (the color scale is bound into none). The render hands over exactly it:
  whatever the sub-components do, the render's result is the same when they disregard the
  scale they are handed and work with the caller's.
\<close>

theorem caller_scale_kept:
  "(xScale v = Some bx \<longrightarrow>
      xScale (barChartVertical_init data v) = Some bx
      \<and> axis_scale (barChartVertical_xAxis (barChartVertical_init data v)) = Some (Band bx)
      \<and> bars_xScale (barChartVertical_chart (barChartVertical_init data v)) = Some bx
      \<and> xScale (vars_after (barChartVertical_my cmp data v)) = Some bx
      \<and> barChartVertical_my (with_xScale bx cmp) data v = barChartVertical_my cmp data v)
   \<and> (yScale v = Some ly \<longrightarrow>
      yScale (barChartVertical_init data v) = Some ly
      \<and> map_option axis_scale (barChartVertical_yAxis (barChartVertical_init data v))
          = Some (Some (Linear ly))
      \<and> bars_yScale (barChartVertical_chart (barChartVertical_init data v)) = Some ly
      \<and> yScale (vars_after (barChartVertical_my cmp data v)) = Some ly
      \<and> barChartVertical_my (with_yScale ly cmp) data v = barChartVertical_my cmp data v)
   \<and> (colorScale v = Some oc \<longrightarrow>
      colorScale (barChartVertical_init data v) = Some oc
      \<and> colorScale (vars_after (barChartVertical_my cmp data v)) = Some oc)
   \<and> (xScale m = Some bx \<longrightarrow>
      xScale (barChartMultiSeries_init data m) = Some bx
      \<and> atp_xScale (barChartMultiSeries_axis (barChartMultiSeries_init data m)) = Some bx
      \<and> bms_xScale (barChartMultiSeries_chart (barChartMultiSeries_init data m)) = Some bx
      \<and> xScale (vars_after (barChartMultiSeries_my cmp data m)) = Some bx
      \<and> barChartMultiSeries_my (with_xScale bx cmp) data m = barChartMultiSeries_my cmp data m)
   \<and> (yScale m = Some ly \<longrightarrow>
      yScale (barChartMultiSeries_init data m) = Some ly
      \<and> atp_yScale (barChartMultiSeries_axis (barChartMultiSeries_init data m)) = Some ly
      \<and> bms_yScale (barChartMultiSeries_chart (barChartMultiSeries_init data m)) = Some ly
      \<and> yScale (vars_after (barChartMultiSeries_my cmp data m)) = Some ly
      \<and> barChartMultiSeries_my (with_yScale ly cmp) data m = barChartMultiSeries_my cmp data m)
   \<and> (zScale m = Some bz \<longrightarrow>
      zScale (barChartMultiSeries_init data m) = Some bz
      \<and> atp_zScale (barChartMultiSeries_axis (barChartMultiSeries_init data m)) = Some bz
      \<and> bms_zScale (barChartMultiSeries_chart (barChartMultiSeries_init data m)) = Some bz
      \<and> zScale (vars_after (barChartMultiSeries_my cmp data m)) = Some bz
      \<and> barChartMultiSeries_my (with_zScale bz cmp) data m = barChartMultiSeries_my cmp data m)
   \<and> (colorScale m = Some oc \<longrightarrow>
      colorScale (barChartMultiSeries_init data m) = Some oc
      \<and> colorScale (vars_after (barChartMultiSeries_my cmp data m)) = Some oc)"
proof -
  have v: "vars_after (barChartVertical_my cmp data v) = v
      \<or> vars_after (barChartVertical_my cmp data v) = barChartVertical_init data v"
    by (simp add: vertical_my_vars split: outcome.splits)
  have m: "vars_after (barChartMultiSeries_my cmp data m) = m
      \<or> vars_after (barChartMultiSeries_my cmp data m) = barChartMultiSeries_init data m"
    by (simp add: multi_my_vars_cases split: outcome.splits)
  have "xScale v = Some bx \<longrightarrow>
      xScale (barChartVertical_init data v) = Some bx
      \<and> axis_scale (barChartVertical_xAxis (barChartVertical_init data v)) = Some (Band bx)
      \<and> bars_xScale (barChartVertical_chart (barChartVertical_init data v)) = Some bx
      \<and> xScale (vars_after (barChartVertical_my cmp data v)) = Some bx
      \<and> barChartVertical_my (with_xScale bx cmp) data v = barChartVertical_my cmp data v"
    using v by (auto simp: vertical_init_kept barChartVertical_xAxis_def barChartVertical_chart_def
        vertical_my_with_xScale)
  moreover have "yScale v = Some ly \<longrightarrow>
      yScale (barChartVertical_init data v) = Some ly
      \<and> map_option axis_scale (barChartVertical_yAxis (barChartVertical_init data v))
          = Some (Some (Linear ly))
      \<and> bars_yScale (barChartVertical_chart (barChartVertical_init data v)) = Some ly
      \<and> yScale (vars_after (barChartVertical_my cmp data v)) = Some ly
      \<and> barChartVertical_my (with_yScale ly cmp) data v = barChartVertical_my cmp data v"
    using v by (auto simp: vertical_init_kept barChartVertical_yAxis_def barChartVertical_chart_def
        vertical_my_with_yScale)
  moreover have "colorScale v = Some oc \<longrightarrow>
      colorScale (barChartVertical_init data v) = Some oc
      \<and> colorScale (vars_after (barChartVertical_my cmp data v)) = Some oc"
    using v by (auto simp: vertical_init_kept)
  moreover have "xScale m = Some bx \<longrightarrow>
      xScale (barChartMultiSeries_init data m) = Some bx
      \<and> atp_xScale (barChartMultiSeries_axis (barChartMultiSeries_init data m)) = Some bx
      \<and> bms_xScale (barChartMultiSeries_chart (barChartMultiSeries_init data m)) = Some bx
      \<and> xScale (vars_after (barChartMultiSeries_my cmp data m)) = Some bx
      \<and> barChartMultiSeries_my (with_xScale bx cmp) data m = barChartMultiSeries_my cmp data m"
    using m by (auto simp: multi_init_kept barChartMultiSeries_axis_def barChartMultiSeries_chart_def
        multi_my_with_xScale multi_my_with_yScale multi_my_with_zScale)
  moreover have "yScale m = Some ly \<longrightarrow>
      yScale (barChartMultiSeries_init data m) = Some ly
      \<and> atp_yScale (barChartMultiSeries_axis (barChartMultiSeries_init data m)) = Some ly
      \<and> bms_yScale (barChartMultiSeries_chart (barChartMultiSeries_init data m)) = Some ly
      \<and> yScale (vars_after (barChartMultiSeries_my cmp data m)) = Some ly
      \<and> barChartMultiSeries_my (with_yScale ly cmp) data m = barChartMultiSeries_my cmp data m"
    using m by (auto simp: multi_init_kept barChartMultiSeries_axis_def barChartMultiSeries_chart_def
        multi_my_with_xScale multi_my_with_yScale multi_my_with_zScale)
  moreover have "zScale m = Some bz \<longrightarrow>
      zScale (barChartMultiSeries_init data m) = Some bz
      \<and> atp_zScale (barChartMultiSeries_axis (barChartMultiSeries_init data m)) = Some bz
      \<and> bms_zScale (barChartMultiSeries_chart (barChartMultiSeries_init data m)) = Some bz
      \<and> zScale (vars_after (barChartMultiSeries_my cmp data m)) = Some bz
      \<and> barChartMultiSeries_my (with_zScale bz cmp) data m = barChartMultiSeries_my cmp data m"
    using m by (auto simp: multi_init_kept barChartMultiSeries_axis_def barChartMultiSeries_chart_def
        multi_my_with_xScale multi_my_with_yScale multi_my_with_zScale)
  moreover have "colorScale m = Some oc \<longrightarrow>
      colorScale (barChartMultiSeries_init data m) = Some oc
      \<and> colorScale (vars_after (barChartMultiSeries_my cmp data m)) = Some oc"
    using m by (auto simp: multi_init_kept)
  ultimately show ?thesis by blast
qed

theorem caller_scale_kept_witness:
  "xScale (snd (barChartVertical_xScale My (Arg (Some scaleBand)) barChartVertical)) = Some scaleBand
   \<and> xScale (barChartVertical_init dataset_A
        (snd (barChartVertical_xScale My (Arg (Some scaleBand)) barChartVertical))) = Some scaleBand
   \<and> bars_xScale (barChartVertical_chart (barChartVertical_init dataset_A
        (snd (barChartVertical_xScale My (Arg (Some scaleBand)) barChartVertical)))) = Some scaleBand
   \<and> yScale (snd (barChartVertical_yScale My (Arg (Some scaleLinear)) barChartVertical)) = Some scaleLinear
   \<and> bars_yScale (barChartVertical_chart (barChartVertical_init dataset_A
        (snd (barChartVertical_yScale My (Arg (Some scaleLinear)) barChartVertical)))) = Some scaleLinear
   \<and> colorScale (snd (barChartVertical_colorScale My (Arg (Some scaleOrdinal)) barChartVertical)) = Some scaleOrdinal
   \<and> colorScale (barChartVertical_init dataset_A
        (snd (barChartVertical_colorScale My (Arg (Some scaleOrdinal)) barChartVertical))) = Some scaleOrdinal
   \<and> xScale (snd (barChartMultiSeries_xScale My (Arg (Some scaleBand)) barChartMultiSeries)) = Some scaleBand
   \<and> bms_xScale (barChartMultiSeries_chart (barChartMultiSeries_init dataset_A
        (snd (barChartMultiSeries_xScale My (Arg (Some scaleBand)) barChartMultiSeries)))) = Some scaleBand
   \<and> yScale (snd (barChartMultiSeries_yScale My (Arg (Some scaleLinear)) barChartMultiSeries)) = Some scaleLinear
   \<and> bms_yScale (barChartMultiSeries_chart (barChartMultiSeries_init dataset_A
        (snd (barChartMultiSeries_yScale My (Arg (Some scaleLinear)) barChartMultiSeries)))) = Some scaleLinear
   \<and> zScale (snd (barChartMultiSeries_zScale My (Arg (Some scaleBand)) barChartMultiSeries)) = Some scaleBand
   \<and> bms_zScale (barChartMultiSeries_chart (barChartMultiSeries_init dataset_A
        (snd (barChartMultiSeries_zScale My (Arg (Some scaleBand)) barChartMultiSeries)))) = Some scaleBand
   \<and> colorScale (snd (barChartMultiSeries_colorScale My (Arg (Some scaleOrdinal)) barChartMultiSeries)) = Some scaleOrdinal
   \<and> colorScale (barChartMultiSeries_init dataset_A
        (snd (barChartMultiSeries_colorScale My (Arg (Some scaleOrdinal)) barChartMultiSeries))) = Some scaleOrdinal
   \<and> barChartVertical_my (with_xScale scaleBand appending) dataset_A
        (snd (barChartVertical_xScale My (Arg (Some scaleBand)) barChartVertical))
       = barChartVertical_my appending dataset_A
        (snd (barChartVertical_xScale My (Arg (Some scaleBand)) barChartVertical))
   \<and> barChartVertical_my (with_yScale scaleLinear appending) dataset_A
        (snd (barChartVertical_yScale My (Arg (Some scaleLinear)) barChartVertical))
       = barChartVertical_my appending dataset_A
        (snd (barChartVertical_yScale My (Arg (Some scaleLinear)) barChartVertical))
   \<and> barChartMultiSeries_my (with_zScale scaleBand appending) dataset_A
        (snd (barChartMultiSeries_zScale My (Arg (Some scaleBand)) barChartMultiSeries))
       = barChartMultiSeries_my appending dataset_A
        (snd (barChartMultiSeries_zScale My (Arg (Some scaleBand)) barChartMultiSeries))"
  using
    caller_scale_kept [where v = "snd (barChartVertical_xScale My (Arg (Some scaleBand)) barChartVertical)"
      and bx = scaleBand and data = dataset_A and cmp = appending]
    caller_scale_kept [where v = "snd (barChartVertical_yScale My (Arg (Some scaleLinear)) barChartVertical)"
      and ly = scaleLinear and data = dataset_A and cmp = appending]
    caller_scale_kept [where v = "snd (barChartVertical_colorScale My (Arg (Some scaleOrdinal)) barChartVertical)"
      and oc = scaleOrdinal and data = dataset_A and cmp = appending]
    caller_scale_kept [where m = "snd (barChartMultiSeries_xScale My (Arg (Some scaleBand)) barChartMultiSeries)"
      and bx = scaleBand and data = dataset_A and cmp = appending]
    caller_scale_kept [where m = "snd (barChartMultiSeries_yScale My (Arg (Some scaleLinear)) barChartMultiSeries)"
      and ly = scaleLinear and data = dataset_A and cmp = appending]
    caller_scale_kept [where m = "snd (barChartMultiSeries_zScale My (Arg (Some scaleBand)) barChartMultiSeries)"
      and bz = scaleBand and data = dataset_A and cmp = appending]
    caller_scale_kept [where m = "snd (barChartMultiSeries_colorScale My (Arg (Some scaleOrdinal)) barChartMultiSeries)"
      and oc = scaleOrdinal and data = dataset_A and cmp = appending]
  by (simp add: barChartVertical_xScale_def barChartVertical_yScale_def barChartVertical_colorScale_def
      barChartMultiSeries_xScale_def barChartMultiSeries_yScale_def barChartMultiSeries_zScale_def
      barChartMultiSeries_colorScale_def)


subsection \<open>The color scale\<close>

lemma vertical_init_colorScale_eq:
  "barChartVertical_init data (s\<lparr>colorScale := c\<rparr>) =
     (barChartVertical_init data s)\<lparr>colorScale := Some (case c of
          None \<Rightarrow> ordinal_range_set (colors s)
                    (ordinal_domain_set (columnKeys (dataTransform_summary data)) scaleOrdinal)
        | Some c' \<Rightarrow> c')\<rparr>"
  by (cases c) (simp_all add: vertical_init_eq cong: option.case_cong)

lemma vertical_init_colorScale:
  "\<exists>k. barChartVertical_init data (s\<lparr>colorScale := c\<rparr>) = (barChartVertical_init data s)\<lparr>colorScale := k\<rparr>"
  using vertical_init_colorScale_eq by blast

lemma multi_init_colorScale_eq:
  "barChartMultiSeries_init data (s\<lparr>colorScale := c\<rparr>) =
     (barChartMultiSeries_init data s)\<lparr>colorScale := Some (case c of
          None \<Rightarrow> ordinal_range_set (colors s)
                    (ordinal_domain_set (columnKeys (dataTransform_summary data)) scaleOrdinal)
        | Some c' \<Rightarrow> c')\<rparr>"
  by (cases c) (simp_all add: multi_init_eq cong: option.case_cong)

lemma multi_init_colorScale:
  "\<exists>k. barChartMultiSeries_init data (s\<lparr>colorScale := c\<rparr>) = (barChartMultiSeries_init data s)\<lparr>colorScale := k\<rparr>"
  using multi_init_colorScale_eq by blast

lemma vertical_cfg_colorScale:
  "barChartVertical_xAxis (s\<lparr>colorScale := c\<rparr>) = barChartVertical_xAxis s"
  "barChartVertical_yAxis (s\<lparr>colorScale := c\<rparr>) = barChartVertical_yAxis s"
  "barChartVertical_chart (s\<lparr>colorScale := c\<rparr>) = barChartVertical_chart s"
  "barChartVertical_scene (s\<lparr>colorScale := c\<rparr>) = barChartVertical_scene s"
  by (simp_all add: barChartVertical_xAxis_def barChartVertical_yAxis_def barChartVertical_chart_def
      barChartVertical_scene_def)

lemma multi_cfg_colorScale:
  "barChartMultiSeries_axis (s\<lparr>colorScale := c\<rparr>) = barChartMultiSeries_axis s"
  "barChartMultiSeries_chart (s\<lparr>colorScale := c\<rparr>) = barChartMultiSeries_chart s"
  "barChartMultiSeries_scene (s\<lparr>colorScale := c\<rparr>) = barChartMultiSeries_scene s"
  "barChartMultiSeries_viewpoint (s\<lparr>colorScale := c\<rparr>) = barChartMultiSeries_viewpoint s"
  by (simp_all add: barChartMultiSeries_axis_def barChartMultiSeries_chart_def
      barChartMultiSeries_scene_def barChartMultiSeries_viewpoint_def)

lemma vertical_my_colorScale:
  "x3d_of (barChartVertical_my cmp data (s\<lparr>colorScale := c\<rparr>)) = x3d_of (barChartVertical_my cmp data s)
   \<and> threw (barChartVertical_my cmp data (s\<lparr>colorScale := c\<rparr>)) = threw (barChartVertical_my cmp data s)"
proof -
  obtain k where k: "barChartVertical_init data (s\<lparr>colorScale := c\<rparr>)
      = (barChartVertical_init data s)\<lparr>colorScale := k\<rparr>"
    using vertical_init_colorScale by blast
  show ?thesis
    unfolding barChartVertical_my_def Let_def k vertical_cfg_colorScale
    by (simp split: outcome.splits option.splits prod.splits bool.splits)
qed

lemma multi_my_colorScale:
  "x3d_of (barChartMultiSeries_my cmp data (s\<lparr>colorScale := c\<rparr>)) = x3d_of (barChartMultiSeries_my cmp data s)
   \<and> threw (barChartMultiSeries_my cmp data (s\<lparr>colorScale := c\<rparr>)) = threw (barChartMultiSeries_my cmp data s)"
proof -
  obtain k where k: "barChartMultiSeries_init data (s\<lparr>colorScale := c\<rparr>)
      = (barChartMultiSeries_init data s)\<lparr>colorScale := k\<rparr>"
    using multi_init_colorScale by blast
  show ?thesis
    unfolding barChartMultiSeries_my_def Let_def k multi_cfg_colorScale
    by (simp split: outcome.splits option.splits prod.splits bool.splits)
qed


text \<open>
  Claim C10. The color scale has no effect on what is rendered: two renders that differ
  only in the color scale the caller supplied (or did not supply) give the same scene
  graph and outcome; the components are bound to the same settings, and the bars
  component gets the colors array.
\<close>

theorem colorScale_without_effect:
  "x3d_of (barChartVertical_my cmp data (v\<lparr>colorScale := c\<rparr>))
     = x3d_of (barChartVertical_my cmp data (v\<lparr>colorScale := c'\<rparr>))
   \<and> threw (barChartVertical_my cmp data (v\<lparr>colorScale := c\<rparr>))
     = threw (barChartVertical_my cmp data (v\<lparr>colorScale := c'\<rparr>))
   \<and> barChartVertical_xAxis (barChartVertical_init data (v\<lparr>colorScale := c\<rparr>))
     = barChartVertical_xAxis (barChartVertical_init data (v\<lparr>colorScale := c'\<rparr>))
   \<and> barChartVertical_yAxis (barChartVertical_init data (v\<lparr>colorScale := c\<rparr>))
     = barChartVertical_yAxis (barChartVertical_init data (v\<lparr>colorScale := c'\<rparr>))
   \<and> barChartVertical_chart (barChartVertical_init data (v\<lparr>colorScale := c\<rparr>))
     = \<lparr>bars_xScale = xScale (barChartVertical_init data v),
         bars_yScale = yScale (barChartVertical_init data v), bars_colors = colors v\<rparr>
   \<and> x3d_of (barChartMultiSeries_my cmp data (m\<lparr>colorScale := c\<rparr>))
     = x3d_of (barChartMultiSeries_my cmp data (m\<lparr>colorScale := c'\<rparr>))
   \<and> threw (barChartMultiSeries_my cmp data (m\<lparr>colorScale := c\<rparr>))
     = threw (barChartMultiSeries_my cmp data (m\<lparr>colorScale := c'\<rparr>))
   \<and> barChartMultiSeries_axis (barChartMultiSeries_init data (m\<lparr>colorScale := c\<rparr>))
     = barChartMultiSeries_axis (barChartMultiSeries_init data (m\<lparr>colorScale := c'\<rparr>))
   \<and> barChartMultiSeries_chart (barChartMultiSeries_init data (m\<lparr>colorScale := c\<rparr>))
     = \<lparr>bms_xScale = xScale (barChartMultiSeries_init data m),
         bms_yScale = yScale (barChartMultiSeries_init data m),
         bms_zScale = zScale (barChartMultiSeries_init data m), bms_colors = colors m\<rparr>"
proof -
  obtain k k' where k: "barChartVertical_init data (v\<lparr>colorScale := c\<rparr>)
      = (barChartVertical_init data v)\<lparr>colorScale := k\<rparr>"
    "barChartVertical_init data (v\<lparr>colorScale := c'\<rparr>)
      = (barChartVertical_init data v)\<lparr>colorScale := k'\<rparr>"
    using vertical_init_colorScale by blast
  obtain j j' where j: "barChartMultiSeries_init data (m\<lparr>colorScale := c\<rparr>)
      = (barChartMultiSeries_init data m)\<lparr>colorScale := j\<rparr>"
    "barChartMultiSeries_init data (m\<lparr>colorScale := c'\<rparr>)
      = (barChartMultiSeries_init data m)\<lparr>colorScale := j'\<rparr>"
    using multi_init_colorScale by blast
  have "colors (barChartVertical_init data v) = colors v"
    "colors (barChartMultiSeries_init data m) = colors m"
    by (simp_all add: vertical_init_eq multi_init_eq)
  then show ?thesis
    unfolding k j vertical_cfg_colorScale multi_cfg_colorScale
    by (simp add: vertical_my_colorScale multi_my_colorScale
        barChartVertical_chart_def barChartMultiSeries_chart_def)
qed


subsection \<open>Light and viewpoint of the multi-series chart\<close>

lemma select_in_length:
  "select_in c f ns = Some (ns', t) \<Longrightarrow> length ns' = length ns"
proof (induction c f ns arbitrary: ns' t rule: select_in.induct)
  case (1 c f)
  then show ?case by simp
next
  case (2 c f n ns)
  then show ?case
    by (auto split: if_splits outcome.splits option.splits prod.splits)
qed

lemma select_in_snoc_leaf:
  assumes "\<not> has_class c l" "children l = []"
  shows "select_in c f (ns @ [l]) = map_option (\<lambda>(ns', t). (ns' @ [l], t)) (select_in c f ns)"
  using assms
proof (induction c f ns rule: select_in.induct)
  case (1 c f)
  then show ?case by simp
next
  case (2 c f n ns)
  then show ?case
    by (auto split: outcome.splits option.splits prod.splits)
qed

lemma directionallight_plain:
  "\<not> has_class c directionallight" "children directionallight = []"
  by (simp_all add: directionallight_eq has_class_def class_tokens_def)

lemma select_call_light:
  "\<exists>cs' t. select_call c f (Node tg as (cs @ [directionallight]))
      = (Node tg as (cs' @ [directionallight]), t) \<and> length cs' = length cs"
proof (cases "select_in c f cs")
  case None
  then have "select_call c f (Node tg as (cs @ [directionallight]))
      = (Node tg as (cs @ [directionallight]), False)"
    by (simp add: select_call_def select_in_snoc_leaf directionallight_plain)
  then show ?thesis by blast
next
  case (Some r)
  obtain cs' t where r: "r = (cs', t)" by (cases r)
  with Some have "length cs' = length cs" using select_in_length by blast
  with Some r show ?thesis
    by (simp add: select_call_def select_in_snoc_leaf directionallight_plain)
qed

text \<open>
  Claim C9. The multi-series chart calls the viewpoint component with the centre of
  rotation set to half of each configured dimension; once that component has returned,
  the chart appends one \<open>directionallight\<close> element to the scene, with direction
  \<open>1 0 -1\<close>, on \<open>true\<close>, intensity \<open>0.4\<close> and shadowintensity \<open>0\<close>, whatever the
  configuration is. It stays the last child of the scene.
\<close>

theorem multi_light_and_center:
  assumes "viewpoint cmp
             \<lparr>vp_quickView = None,
              vp_centerOfRotation =
                Some [dim_x (dimensions s) / 2, dim_y (dimensions s) / 2, dim_z (dimensions s) / 2]\<rparr>
             (barChartMultiSeries_scene s) = Returned n"
  shows "\<exists>scene cs. children (x3d_of (barChartMultiSeries_my cmp data s)) = [scene]
           \<and> children scene = cs @
               [Node ''directionallight''
                  [(''direction'', Text ''1 0 -1''), (''on'', Text ''true''),
                   (''intensity'', Text ''0.4''), (''shadowintensity'', Text ''0'')] []]
           \<and> length cs = length (children n)"
proof -
  obtain tg as cs where n: "n = Node tg as cs" by (cases n)
  let ?s = "barChartMultiSeries_init data s"
  obtain cs1 t1 where 1:
    "select_call ''axis'' (axisThreePlane cmp (barChartMultiSeries_axis ?s))
       (Node tg as (cs @ [directionallight])) = (Node tg as (cs1 @ [directionallight]), t1)"
    "length cs1 = length cs"
    using select_call_light by blast
  obtain cs2 t2 where 2:
    "select_call ''chart'' (barsMultiSeries cmp (barChartMultiSeries_chart ?s) data)
       (Node tg as (cs1 @ [directionallight])) = (Node tg as (cs2 @ [directionallight]), t2)"
    "length cs2 = length cs1"
    using select_call_light by blast
  have x3d: "children (if debug s
                 then attr ''showStat'' (Text ''true'') (attr ''showLog'' (Text ''true'')
                   (attr ''height'' (Px (height s)) (attr ''width'' (Px (width s)) (element ''x3d''))))
                 else attr ''height'' (Px (height s)) (attr ''width'' (Px (width s)) (element ''x3d''))) = []"
    by (simp add: element_def)
  show ?thesis
  proof (cases t1)
    case True
    with assms n 1 x3d show ?thesis
      by (simp add: barChartMultiSeries_my_def Let_def barChartMultiSeries_viewpoint_def
          directionallight_eq)
  next
    case False
    with assms n 1 2 x3d show ?thesis
      by (simp add: barChartMultiSeries_my_def Let_def barChartMultiSeries_viewpoint_def
          directionallight_eq)
  qed
qed


theorem multi_light_and_center_witness:
  "viewpoint appending
     \<lparr>vp_quickView = None, vp_centerOfRotation = Some [20, 20, 20]\<rparr>
     (barChartMultiSeries_scene barChartMultiSeries)
     = Returned (append_child (element ''viewpoint'') (barChartMultiSeries_scene barChartMultiSeries))
   \<and> (\<exists>scene cs. children (x3d_of (barChartMultiSeries_my appending dataset_AB barChartMultiSeries)) = [scene]
           \<and> children scene = cs @
               [Node ''directionallight''
                  [(''direction'', Text ''1 0 -1''), (''on'', Text ''true''),
                   (''intensity'', Text ''0.4''), (''shadowintensity'', Text ''0'')] []]
           \<and> length cs = 3)"
proof -
  have vp: "viewpoint appending
     \<lparr>vp_quickView = None,
      vp_centerOfRotation = Some [dim_x (dimensions barChartMultiSeries) / 2,
        dim_y (dimensions barChartMultiSeries) / 2, dim_z (dimensions barChartMultiSeries) / 2]\<rparr>
     (barChartMultiSeries_scene barChartMultiSeries)
     = Returned (append_child (element ''viewpoint'') (barChartMultiSeries_scene barChartMultiSeries))"
    by (simp add: appending_def)
  have len: "length (children (append_child (element ''viewpoint'')
      (barChartMultiSeries_scene barChartMultiSeries))) = 3"
    by (simp add: multi_scene_groups)
  show ?thesis
    using multi_light_and_center [OF vp, of dataset_AB] vp len
    by (simp add: barChartMultiSeries_def)
qed

subsection \<open>Derived domains\<close>

lemma vertical_init_dataset_A:
  "barChartVertical_init dataset_A barChartVertical =
     barChartVertical
       \<lparr>xScale := Some \<lparr>band_domain = [''q1'', ''q2''], band_range = (0, 40), band_round = True,
                         band_padding = 1 / 2\<rparr>,
        yScale := Some \<lparr>linear_domain = [Num 0, Num 20], linear_range = [0, 40]\<rparr>,
        colorScale := Some \<lparr>ordinal_domain = [''q1'', ''q2''],
                             ordinal_range = [''green'', ''red'', ''yellow'', ''steelblue'', ''orange'']\<rparr>\<rparr>"
  by code_simp


text \<open>
  Claim C5. For the dataset with the one series \<open>A\<close> holding \<open>q1 = 10\<close> and \<open>q2 = 20\<close>, the
  vertical chart in its default configuration derives an x-scale with domain
  \<open>q1, q2\<close> and a y-scale with domain \<open>0, 20\<close>: \<open>init\<close> does, and so does a render in which
  the viewpoint component returns.
\<close>

theorem vertical_domains_dataset_A:
  "map_option band_domain (xScale (barChartVertical_init dataset_A barChartVertical))
     = Some [''q1'', ''q2'']
   \<and> map_option linear_domain (yScale (barChartVertical_init dataset_A barChartVertical))
     = Some [Num 0, Num 20]
   \<and> (viewpoint cmp barChartVertical_viewpoint (barChartVertical_scene barChartVertical) = Returned n
      \<longrightarrow> map_option band_domain
            (xScale (vars_after (barChartVertical_my cmp dataset_A barChartVertical)))
            = Some [''q1'', ''q2'']
        \<and> map_option linear_domain
            (yScale (vars_after (barChartVertical_my cmp dataset_A barChartVertical)))
            = Some [Num 0, Num 20])"
  by (simp add: vertical_my_vars vertical_init_dataset_A)

theorem vertical_domains_dataset_A_witness:
  "viewpoint appending barChartVertical_viewpoint (barChartVertical_scene barChartVertical)
     = Returned (append_child (element ''viewpoint'') (barChartVertical_scene barChartVertical))
   \<and> map_option band_domain
         (xScale (vars_after (barChartVertical_my appending dataset_A barChartVertical)))
       = Some [''q1'', ''q2'']
   \<and> map_option linear_domain
         (yScale (vars_after (barChartVertical_my appending dataset_A barChartVertical)))
       = Some [Num 0, Num 20]"
proof -
  have vp: "viewpoint appending barChartVertical_viewpoint (barChartVertical_scene barChartVertical)
     = Returned (append_child (element ''viewpoint'') (barChartVertical_scene barChartVertical))"
    by (simp add: appending_def)
  with vertical_domains_dataset_A [of appending
      "append_child (element ''viewpoint'') (barChartVertical_scene barChartVertical)"]
  show ?thesis by blast
qed

lemma uniq_pair: "uniq [a, b] = (if a = b then [a] else [a, b])"
  by (simp add: uniq_def)

lemma uniq_single: "uniq [a] = [a]"
  by (simp add: uniq_def)

lemma multi_init_zScale_two:
  "zScale m = None \<Longrightarrow>
   map_option band_domain (zScale (barChartMultiSeries_init [a, b] m))
     = Some (if series_key a = series_key b then [series_key a] else [series_key a, series_key b])"
  by (simp add: multi_init_eq dataTransform_summary_def band_padding_set_def band_range_set_def
      band_domain_set_def uniq_pair uniq_single)

text \<open>
  Claim C6. For a dataset of two series, the multi-series chart without a z-scale of the
  caller's derives a z-scale whose domain is the two series keys in input order (one key,
  when both series carry the same key); this is the z-scale bound into both components.
\<close>

theorem multi_z_domain_two_series:
  "zScale m = None \<Longrightarrow>
     map_option band_domain (zScale (barChartMultiSeries_init [a, b] m))
       = Some (if series_key a = series_key b then [series_key a]
               else [series_key a, series_key b])
     \<and> map_option band_domain (atp_zScale (barChartMultiSeries_axis (barChartMultiSeries_init [a, b] m)))
       = Some (if series_key a = series_key b then [series_key a]
               else [series_key a, series_key b])
     \<and> map_option band_domain (bms_zScale (barChartMultiSeries_chart (barChartMultiSeries_init [a, b] m)))
       = Some (if series_key a = series_key b then [series_key a]
               else [series_key a, series_key b])
     \<and> (viewpoint cmp (barChartMultiSeries_viewpoint m) (barChartMultiSeries_scene m) = Returned n
        \<longrightarrow> map_option band_domain (zScale (vars_after (barChartMultiSeries_my cmp [a, b] m)))
          = Some (if series_key a = series_key b then [series_key a]
                  else [series_key a, series_key b]))"
  using multi_init_zScale_two [of m a b]
  by (simp add: multi_my_vars_cases barChartMultiSeries_axis_def barChartMultiSeries_chart_def)

theorem multi_z_domain_two_series_witness:
  "zScale barChartMultiSeries = None
   \<and> viewpoint appending (barChartMultiSeries_viewpoint barChartMultiSeries)
       (barChartMultiSeries_scene barChartMultiSeries)
     = Returned (append_child (element ''viewpoint'') (barChartMultiSeries_scene barChartMultiSeries))
   \<and> map_option band_domain (zScale (barChartMultiSeries_init dataset_AB barChartMultiSeries))
     = Some [''A'', ''B'']
   \<and> map_option band_domain
       (zScale (vars_after (barChartMultiSeries_my appending dataset_AB barChartMultiSeries)))
     = Some [''A'', ''B'']"
proof -
  have z: "zScale barChartMultiSeries = None"
    by (simp add: barChartMultiSeries_def)
  have vp: "viewpoint appending (barChartMultiSeries_viewpoint barChartMultiSeries)
       (barChartMultiSeries_scene barChartMultiSeries)
     = Returned (append_child (element ''viewpoint'') (barChartMultiSeries_scene barChartMultiSeries))"
    by (simp add: appending_def)
  show ?thesis
    using multi_z_domain_two_series [OF z, of
        "\<lparr>series_key = ''A'',
          series_values = [\<lparr>point_key = ''q1'', point_value = 10\<rparr>,
                           \<lparr>point_key = ''q2'', point_value = 20\<rparr>]\<rparr>"
        "\<lparr>series_key = ''B'', series_values = [\<lparr>point_key = ''q1'', point_value = 5\<rparr>]\<rparr>"
        appending
        "append_child (element ''viewpoint'') (barChartMultiSeries_scene barChartMultiSeries)"]
      z vp
    by (simp add: dataset_AB_def)
qed


end
